theory Spec2Isabelle
  imports Main "HOL-Library.Word"
begin

section \<open>Kubernetes objects\<close>

text \<open>
  The object bodies of the three resource kinds. Go embeds \<open>metav1.ObjectMeta\<close> in every
  object, so \<open>d.Name\<close> reads the metadata's field; the records below extend
  \<open>ObjectMeta\<close> in the same way. An instant of \<open>time.Time\<close> is an integer, an
  \<open>int32\<close> counter a 32-bit word. A Go map is a reference to a table that lives in the
  heap: \<open>Labels\<close> holds the address of that table (\<open>None\<close> for the nil map), and the
  tables themselves are kept in a \<open>label_store\<close>.
\<close>

type_synonym time = int

type_synonym int32 = "32 word"

record ObjectMeta =
  Name :: string
  Namespace :: string
  DeletionTimestamp :: "time option"
  Labels :: "nat option"

record DeploymentStatus =
  Replicas :: int32
  ReadyReplicas :: int32

record appsv1_Deployment = ObjectMeta +
  Deployment_Spec :: string
  Deployment_Status :: DeploymentStatus

record DaemonSetStatus =
  DesiredNumberScheduled :: int32
  NumberReady :: int32

record appsv1_DaemonSet = ObjectMeta +
  DaemonSet_Spec :: string
  DaemonSet_Status :: DaemonSetStatus

record rbacv1_ClusterRole = ObjectMeta +
  Rules :: "string list"

definition empty_Deployment :: appsv1_Deployment where
  "empty_Deployment =
     \<lparr>Name = '''', Namespace = '''', DeletionTimestamp = None, Labels = None,
      Deployment_Spec = '''',
      Deployment_Status = \<lparr>Replicas = 0, ReadyReplicas = 0\<rparr>\<rparr>"

definition empty_DaemonSet :: appsv1_DaemonSet where
  "empty_DaemonSet =
     \<lparr>Name = '''', Namespace = '''', DeletionTimestamp = None, Labels = None,
      DaemonSet_Spec = '''',
      DaemonSet_Status = \<lparr>DesiredNumberScheduled = 0, NumberReady = 0\<rparr>\<rparr>"

definition empty_ClusterRole :: rbacv1_ClusterRole where
  "empty_ClusterRole =
     \<lparr>Name = '''', Namespace = '''', DeletionTimestamp = None, Labels = None, Rules = []\<rparr>"

text \<open>Go's map store: \<open>m[k] = v\<close> writes into the table the map value refers to.\<close>

type_synonym label_store = "nat \<Rightarrow> (string \<rightharpoonup> string)"

definition go_map_assign :: "nat option \<Rightarrow> string \<Rightarrow> string \<Rightarrow> label_store \<Rightarrow> label_store option" where
  "go_map_assign m k v st =
     (case m of
        None \<Rightarrow> None
      | Some a \<Rightarrow> Some (st(a := (st a)(k \<mapsto> v))))"

definition go_map_index :: "nat option \<Rightarrow> string \<Rightarrow> label_store \<Rightarrow> string option" where
  "go_map_index m k st = (case m of None \<Rightarrow> None | Some a \<Rightarrow> st a k)"

section \<open>Errors\<close>

text \<open>
  What a client call can return as its error: a \<open>*StatusError\<close> with the reason the API
  server gave, or any other error of the transport. \<open>k8serrors.IsNotFound\<close> and
  \<open>k8serrors.IsConflict\<close> read the reason; on the nil error both are false.
\<close>

datatype StatusReason =
    StatusReasonUnknown
  | StatusReasonNotFound
  | StatusReasonConflict
  | StatusReasonAlreadyExists
  | StatusReasonInvalid
  | StatusReasonForbidden

datatype api_error = StatusError StatusReason string | ClientError string

fun k8serrors_IsNotFound :: "api_error option \<Rightarrow> bool" where
  "k8serrors_IsNotFound (Some (StatusError r m)) = (r = StatusReasonNotFound)"
| "k8serrors_IsNotFound (Some (ClientError m)) = False"
| "k8serrors_IsNotFound None = False"

fun k8serrors_IsConflict :: "api_error option \<Rightarrow> bool" where
  "k8serrors_IsConflict (Some (StatusError r m)) = (r = StatusReasonConflict)"
| "k8serrors_IsConflict (Some (ClientError m)) = False"
| "k8serrors_IsConflict None = False"

text \<open>
  The errors this package returns, built with \<open>github.com/juju/errors\<close>: \<open>Trace\<close>,
  \<open>Annotatef\<close> and \<open>NewNotFound\<close> wrap an error (\<open>NewNotFound\<close> also the nil
  error), \<open>AlreadyExistsf\<close> makes a new one (a format and its arguments),
  \<open>errConflict\<close> is the package's constant. \<open>K8s\<close> is an error of the client seen
  as a Go \<open>error\<close>, \<open>Other\<close> any error from elsewhere (the encoder, a claim).
  \<open>errors.IsNotFound\<close> looks through \<open>Trace\<close> and \<open>Annotatef\<close>.
\<close>

datatype error =
    K8s api_error
  | Other string
  | errConflict
  | Trace error
  | Annotatef error string "string list"
  | NewNotFound "error option" string
  | AlreadyExistsf string "string list"

fun errors_IsNotFound :: "error option \<Rightarrow> bool" where
  "errors_IsNotFound None = False"
| "errors_IsNotFound (Some (NewNotFound e m)) = True"
| "errors_IsNotFound (Some (Trace e)) = errors_IsNotFound (Some e)"
| "errors_IsNotFound (Some (Annotatef e f as)) = errors_IsNotFound (Some e)"
| "errors_IsNotFound (Some (K8s e)) = False"
| "errors_IsNotFound (Some (Other m)) = False"
| "errors_IsNotFound (Some errConflict) = False"
| "errors_IsNotFound (Some (AlreadyExistsf f as)) = False"

text \<open>\<open>errors.Trace\<close> and \<open>errors.Annotatef\<close> return nil for the nil error.\<close>

fun errors_Trace :: "api_error option \<Rightarrow> error option" where
  "errors_Trace None = None"
| "errors_Trace (Some e) = Some (Trace (K8s e))"

fun errors_Annotatef :: "error option \<Rightarrow> string \<Rightarrow> string list \<Rightarrow> error option" where
  "errors_Annotatef None f as = None"
| "errors_Annotatef (Some e) f as = Some (Annotatef e f as)"

section \<open>The client\<close>

text \<open>
  The typed client interfaces (\<open>v1.DeploymentInterface\<close>, \<open>v1.DaemonSetInterface\<close>,
  \<open>rbacv1client.ClusterRoleInterface\<close>) have the same methods over their own object
  type \<open>'b\<close>. A call acts on the API server's state \<open>'s\<close> and returns the object or an
  error. The options of a mutating call carry the field manager, those of a delete the
  propagation policy; \<open>GetOptions\<close> is empty. The context argument is not modelled.
\<close>

datatype PatchType = JSONPatchType | MergePatchType | StrategicMergePatchType | ApplyPatchType

datatype DeletionPropagation =
  DeletePropagationOrphan | DeletePropagationBackground | DeletePropagationForeground

record ListOptions =
  LabelSelector :: string
  Continue :: string

record 'b ObjectList =
  Items :: "'b list"
  ListMeta_Continue :: string

record ('b, 's) client =
  client_Patch :: "string \<Rightarrow> PatchType \<Rightarrow> string \<Rightarrow> string \<Rightarrow> 's \<Rightarrow> (api_error + 'b) \<times> 's"
  client_Create :: "'b \<Rightarrow> string \<Rightarrow> 's \<Rightarrow> (api_error + 'b) \<times> 's"
  client_Update :: "'b \<Rightarrow> string \<Rightarrow> 's \<Rightarrow> (api_error + 'b) \<times> 's"
  client_Get :: "string \<Rightarrow> 's \<Rightarrow> (api_error + 'b) \<times> 's"
  client_Delete :: "string \<Rightarrow> DeletionPropagation \<Rightarrow> 's \<Rightarrow> api_error option \<times> 's"
  client_List :: "ListOptions \<Rightarrow> 's \<Rightarrow> (api_error + 'b ObjectList) \<times> 's"

text \<open>
  Modelled from the spec: the fixed field-manager identity that tags every mutating call
  and the fixed default propagation policy of a delete. \<open>JujuFieldManager\<close> and
  \<open>k8sconstants.DefaultPropagationPolicy\<close> are declared outside the listed sources;
  no theorem depends on their values.
\<close>

definition JujuFieldManager :: string where
  "JujuFieldManager = ''juju''"

definition DefaultPropagationPolicy :: DeletionPropagation where
  "DefaultPropagationPolicy = DeletePropagationForeground"

text \<open>
  The world a method runs in: the server's state and the calls issued so far, in order.
  Every call of a method on its client goes through one of the \<open>call_\<close> functions,
  which runs the client's method on the server state and appends the call to the log.
\<close>

datatype 'b call =
    PatchCall string PatchType string string
  | CreateCall 'b string
  | UpdateCall 'b string
  | GetCall string
  | DeleteCall string DeletionPropagation
  | ListCall ListOptions

record ('b, 's) world =
  server :: 's
  calls :: "'b call list"

definition err_of :: "api_error + 'a \<Rightarrow> api_error option" where
  "err_of r = (case r of Inl e \<Rightarrow> Some e | Inr x \<Rightarrow> None)"

definition call_Patch ::
  "('b, 's) client \<Rightarrow> string \<Rightarrow> PatchType \<Rightarrow> string \<Rightarrow> string \<Rightarrow> ('b, 's) world
     \<Rightarrow> (api_error + 'b) \<times> ('b, 's) world" where
  "call_Patch c name pt data fm w =
     (case client_Patch c name pt data fm (server w) of
        (r, s') \<Rightarrow> (r, \<lparr>server = s', calls = calls w @ [PatchCall name pt data fm]\<rparr>))"

definition call_Create ::
  "('b, 's) client \<Rightarrow> 'b \<Rightarrow> string \<Rightarrow> ('b, 's) world \<Rightarrow> (api_error + 'b) \<times> ('b, 's) world" where
  "call_Create c obj fm w =
     (case client_Create c obj fm (server w) of
        (r, s') \<Rightarrow> (r, \<lparr>server = s', calls = calls w @ [CreateCall obj fm]\<rparr>))"

definition call_Update ::
  "('b, 's) client \<Rightarrow> 'b \<Rightarrow> string \<Rightarrow> ('b, 's) world \<Rightarrow> (api_error + 'b) \<times> ('b, 's) world" where
  "call_Update c obj fm w =
     (case client_Update c obj fm (server w) of
        (r, s') \<Rightarrow> (r, \<lparr>server = s', calls = calls w @ [UpdateCall obj fm]\<rparr>))"

definition call_Get ::
  "('b, 's) client \<Rightarrow> string \<Rightarrow> ('b, 's) world \<Rightarrow> (api_error + 'b) \<times> ('b, 's) world" where
  "call_Get c name w =
     (case client_Get c name (server w) of
        (r, s') \<Rightarrow> (r, \<lparr>server = s', calls = calls w @ [GetCall name]\<rparr>))"

definition call_Delete ::
  "('b, 's) client \<Rightarrow> string \<Rightarrow> DeletionPropagation \<Rightarrow> ('b, 's) world
     \<Rightarrow> api_error option \<times> ('b, 's) world" where
  "call_Delete c name pp w =
     (case client_Delete c name pp (server w) of
        (r, s') \<Rightarrow> (r, \<lparr>server = s', calls = calls w @ [DeleteCall name pp]\<rparr>))"

definition call_List ::
  "('b, 's) client \<Rightarrow> ListOptions \<Rightarrow> ('b, 's) world
     \<Rightarrow> (api_error + 'b ObjectList) \<times> ('b, 's) world" where
  "call_List c opts w =
     (case client_List c opts (server w) of
        (r, s') \<Rightarrow> (r, \<lparr>server = s', calls = calls w @ [ListCall opts]\<rparr>))"

section \<open>Status\<close>

text \<open>
  Modelled from the spec: the states of \<open>status.Status\<close> (package \<open>core/status\<close>, not
  among the listed sources); the spec names Active, Waiting and Terminated and leaves the
  enumeration open, the others stand for the rest of it.
\<close>

datatype Status = Active | Waiting | Terminated | Blocked | Maintenance | Error | Unknown

section \<open>Deployment\<close>

record 's Deployment =
  d_client :: "(appsv1_Deployment, 's) client"
  d_Deployment :: appsv1_Deployment

definition Deployment_ComputeStatus ::
  "'s Deployment \<Rightarrow> time \<Rightarrow> string \<times> Status \<times> time \<times> error option" where
  "Deployment_ComputeStatus d now =
     (case DeletionTimestamp (d_Deployment d) of
        Some t \<Rightarrow> ('''', Terminated, t, None)
      | None \<Rightarrow>
          if ReadyReplicas (Deployment_Status (d_Deployment d))
               = Replicas (Deployment_Status (d_Deployment d))
          then ('''', Active, now, None)
          else ('''', Waiting, now, None))"

text \<open>
  \<open>NewDeployment\<close> writes name and namespace through the pointer \<open>in\<close> and copies the
  object into the resource. The second component of the result is the object \<open>in\<close>
  points to when the call returns (\<open>None\<close> for the nil pointer, whose fresh object no
  caller can reach).
\<close>

definition NewDeployment ::
  "(appsv1_Deployment, 's) client \<Rightarrow> string \<Rightarrow> string \<Rightarrow> appsv1_Deployment option
     \<Rightarrow> 's Deployment \<times> appsv1_Deployment option" where
  "NewDeployment c namespace name in_ptr =
     (let obj = (case in_ptr of None \<Rightarrow> empty_Deployment | Some b \<Rightarrow> b);
          obj = obj\<lparr>Name := name\<rparr>;
          obj = obj\<lparr>Namespace := namespace\<rparr>
      in (\<lparr>d_client = c, d_Deployment = obj\<rparr>, map_option (\<lambda>b. obj) in_ptr))"

definition Deployment_DeleteOrphan :: "'s Deployment \<Rightarrow> error option" where
  "Deployment_DeleteOrphan d = None"

text \<open>\<open>clone := *d\<close> copies the struct, field by field; \<open>&clone\<close> is a new address.\<close>

definition Deployment_Clone :: "'s Deployment \<Rightarrow> 's Deployment" where
  "Deployment_Clone d = (let clone = d in clone)"

datatype ID = ID string string string

definition Deployment_ID :: "'s Deployment \<Rightarrow> ID" where
  "Deployment_ID d = ID ''Deployment'' (Name (d_Deployment d)) (Namespace (d_Deployment d))"

text \<open>
  The methods with a pointer receiver take the resource and the world and return the
  error (\<open>None\<close> for nil), the resource as the call leaves it, and the world.
  \<open>runtime.Encode\<close> with the JSON scheme is the parameter \<open>Encode\<close>.
\<close>

definition Deployment_Apply ::
  "(appsv1_Deployment \<Rightarrow> error + string) \<Rightarrow> 's Deployment \<Rightarrow> (appsv1_Deployment, 's) world
     \<Rightarrow> error option \<times> 's Deployment \<times> (appsv1_Deployment, 's) world" where
  "Deployment_Apply Encode d w =
     (case Encode (d_Deployment d) of
        Inl err \<Rightarrow> (Some (Trace err), d, w)
      | Inr data \<Rightarrow>
          (case call_Patch (d_client d) (Name (d_Deployment d)) StrategicMergePatchType data
                  JujuFieldManager w of
             (res, w1) \<Rightarrow>
               (case (if k8serrors_IsNotFound (err_of res)
                      then call_Create (d_client d) (d_Deployment d) JujuFieldManager w1
                      else (res, w1)) of
                  (res, w2) \<Rightarrow>
                    if k8serrors_IsConflict (err_of res)
                    then (Some (Annotatef errConflict ''deployment %q'' [Name (d_Deployment d)]),
                          d, w2)
                    else (case res of
                            Inl err \<Rightarrow> (Some (Trace (K8s err)), d, w2)
                          | Inr obj \<Rightarrow> (None, d\<lparr>d_Deployment := obj\<rparr>, w2)))))"

definition Deployment_Get ::
  "'s Deployment \<Rightarrow> (appsv1_Deployment, 's) world
     \<Rightarrow> error option \<times> 's Deployment \<times> (appsv1_Deployment, 's) world" where
  "Deployment_Get d w =
     (case call_Get (d_client d) (Name (d_Deployment d)) w of
        (res, w1) \<Rightarrow>
          if k8serrors_IsNotFound (err_of res)
          then (Some (NewNotFound (map_option K8s (err_of res)) ''k8s''), d, w1)
          else (case res of
                  Inl err \<Rightarrow> (Some (Trace (K8s err)), d, w1)
                | Inr obj \<Rightarrow> (None, d\<lparr>d_Deployment := obj\<rparr>, w1)))"

definition Deployment_Delete ::
  "'s Deployment \<Rightarrow> (appsv1_Deployment, 's) world
     \<Rightarrow> error option \<times> 's Deployment \<times> (appsv1_Deployment, 's) world" where
  "Deployment_Delete d w =
     (case call_Delete (d_client d) (Name (d_Deployment d)) DefaultPropagationPolicy w of
        (err, w1) \<Rightarrow>
          if k8serrors_IsNotFound err
          then (Some (NewNotFound (map_option K8s err) ''k8s deployment for deletion''), d, w1)
          else (errors_Trace err, d, w1))"

text \<open>
  The listing loop runs until a page comes with an empty continuation token, so it need
  not return: \<open>None\<close> stands for the loop that runs forever. The result is Go's pair
  of the items and the error.
\<close>

partial_function (option) ListDeployments_loop ::
  "(appsv1_Deployment, 's) client \<Rightarrow> string \<Rightarrow> ListOptions \<Rightarrow> 's Deployment list
     \<Rightarrow> (appsv1_Deployment, 's) world
     \<Rightarrow> (('s Deployment list \<times> error option) \<times> (appsv1_Deployment, 's) world) option" where
  "ListDeployments_loop c namespace opts items w =
     (case call_List c opts w of
        (res, w1) \<Rightarrow>
          (case res of
             Inl err \<Rightarrow> Some (([], Some (Trace (K8s err))), w1)
           | Inr page \<Rightarrow>
               (let items = foldl (\<lambda>items item.
                                     items @ [fst (NewDeployment c namespace (Name item) (Some item))])
                              items (Items page)
                in if ListMeta_Continue page = '''' then Some ((items, None), w1)
                   else ListDeployments_loop c namespace
                          (opts\<lparr>Continue := ListMeta_Continue page\<rparr>) items w1)))"

definition ListDeployments ::
  "(appsv1_Deployment, 's) client \<Rightarrow> string \<Rightarrow> ListOptions \<Rightarrow> (appsv1_Deployment, 's) world
     \<Rightarrow> (('s Deployment list \<times> error option) \<times> (appsv1_Deployment, 's) world) option" where
  "ListDeployments c namespace opts w = ListDeployments_loop c namespace opts [] w"

section \<open>DaemonSet\<close>

record 's DaemonSet =
  ds_client :: "(appsv1_DaemonSet, 's) client"
  ds_DaemonSet :: appsv1_DaemonSet

definition DaemonSet_ComputeStatus ::
  "'s DaemonSet \<Rightarrow> time \<Rightarrow> string \<times> Status \<times> time \<times> error option" where
  "DaemonSet_ComputeStatus ds now =
     (case DeletionTimestamp (ds_DaemonSet ds) of
        Some t \<Rightarrow> ('''', Terminated, t, None)
      | None \<Rightarrow>
          if NumberReady (DaemonSet_Status (ds_DaemonSet ds))
               = DesiredNumberScheduled (DaemonSet_Status (ds_DaemonSet ds))
          then ('''', Active, now, None)
          else ('''', Waiting, now, None))"

definition NewDaemonSet ::
  "(appsv1_DaemonSet, 's) client \<Rightarrow> string \<Rightarrow> string \<Rightarrow> appsv1_DaemonSet option
     \<Rightarrow> 's DaemonSet \<times> appsv1_DaemonSet option" where
  "NewDaemonSet c namespace name in_ptr =
     (let obj = (case in_ptr of None \<Rightarrow> empty_DaemonSet | Some b \<Rightarrow> b);
          obj = obj\<lparr>Name := name\<rparr>;
          obj = obj\<lparr>Namespace := namespace\<rparr>
      in (\<lparr>ds_client = c, ds_DaemonSet = obj\<rparr>, map_option (\<lambda>b. obj) in_ptr))"

definition DaemonSet_DeleteOrphan :: "'s DaemonSet \<Rightarrow> error option" where
  "DaemonSet_DeleteOrphan ds = None"

definition DaemonSet_Clone :: "'s DaemonSet \<Rightarrow> 's DaemonSet" where
  "DaemonSet_Clone ds = (let clone = ds in clone)"

definition DaemonSet_ID :: "'s DaemonSet \<Rightarrow> ID" where
  "DaemonSet_ID ds = ID ''DaemonSet'' (Name (ds_DaemonSet ds)) (Namespace (ds_DaemonSet ds))"

definition DaemonSet_Apply ::
  "(appsv1_DaemonSet \<Rightarrow> error + string) \<Rightarrow> 's DaemonSet \<Rightarrow> (appsv1_DaemonSet, 's) world
     \<Rightarrow> error option \<times> 's DaemonSet \<times> (appsv1_DaemonSet, 's) world" where
  "DaemonSet_Apply Encode ds w =
     (case Encode (ds_DaemonSet ds) of
        Inl err \<Rightarrow> (Some (Trace err), ds, w)
      | Inr data \<Rightarrow>
          (case call_Patch (ds_client ds) (Name (ds_DaemonSet ds)) StrategicMergePatchType data
                  JujuFieldManager w of
             (res, w1) \<Rightarrow>
               (case (if k8serrors_IsNotFound (err_of res)
                      then call_Create (ds_client ds) (ds_DaemonSet ds) JujuFieldManager w1
                      else (res, w1)) of
                  (res, w2) \<Rightarrow>
                    if k8serrors_IsConflict (err_of res)
                    then (Some (Annotatef errConflict ''daemon set %q'' [Name (ds_DaemonSet ds)]),
                          ds, w2)
                    else (case res of
                            Inl err \<Rightarrow> (Some (Trace (K8s err)), ds, w2)
                          | Inr obj \<Rightarrow> (None, ds\<lparr>ds_DaemonSet := obj\<rparr>, w2)))))"

definition DaemonSet_Get ::
  "'s DaemonSet \<Rightarrow> (appsv1_DaemonSet, 's) world
     \<Rightarrow> error option \<times> 's DaemonSet \<times> (appsv1_DaemonSet, 's) world" where
  "DaemonSet_Get ds w =
     (case call_Get (ds_client ds) (Name (ds_DaemonSet ds)) w of
        (res, w1) \<Rightarrow>
          if k8serrors_IsNotFound (err_of res)
          then (Some (NewNotFound (map_option K8s (err_of res)) ''k8s''), ds, w1)
          else (case res of
                  Inl err \<Rightarrow> (Some (Trace (K8s err)), ds, w1)
                | Inr obj \<Rightarrow> (None, ds\<lparr>ds_DaemonSet := obj\<rparr>, w1)))"

definition DaemonSet_Delete ::
  "'s DaemonSet \<Rightarrow> (appsv1_DaemonSet, 's) world
     \<Rightarrow> error option \<times> 's DaemonSet \<times> (appsv1_DaemonSet, 's) world" where
  "DaemonSet_Delete ds w =
     (case call_Delete (ds_client ds) (Name (ds_DaemonSet ds)) DefaultPropagationPolicy w of
        (err, w1) \<Rightarrow>
          if k8serrors_IsNotFound err
          then (Some (NewNotFound (map_option K8s err) ''k8s daemon set for deletion''), ds, w1)
          else (errors_Trace err, ds, w1))"

partial_function (option) ListDaemonSets_loop ::
  "(appsv1_DaemonSet, 's) client \<Rightarrow> string \<Rightarrow> ListOptions \<Rightarrow> 's DaemonSet list
     \<Rightarrow> (appsv1_DaemonSet, 's) world
     \<Rightarrow> (('s DaemonSet list \<times> error option) \<times> (appsv1_DaemonSet, 's) world) option" where
  "ListDaemonSets_loop c namespace opts items w =
     (case call_List c opts w of
        (res, w1) \<Rightarrow>
          (case res of
             Inl err \<Rightarrow> Some (([], Some (Trace (K8s err))), w1)
           | Inr page \<Rightarrow>
               (let items = foldl (\<lambda>items item.
                                     items @ [fst (NewDaemonSet c namespace (Name item) (Some item))])
                              items (Items page)
                in if ListMeta_Continue page = '''' then Some ((items, None), w1)
                   else ListDaemonSets_loop c namespace
                          (opts\<lparr>Continue := ListMeta_Continue page\<rparr>) items w1)))"

definition ListDaemonSets ::
  "(appsv1_DaemonSet, 's) client \<Rightarrow> string \<Rightarrow> ListOptions \<Rightarrow> (appsv1_DaemonSet, 's) world
     \<Rightarrow> (('s DaemonSet list \<times> error option) \<times> (appsv1_DaemonSet, 's) world) option" where
  "ListDaemonSets c namespace opts w = ListDaemonSets_loop c namespace opts [] w"

section \<open>ClusterRole\<close>

record 's ClusterRole =
  r_client :: "(rbacv1_ClusterRole, 's) client"
  r_ClusterRole :: rbacv1_ClusterRole

definition ClusterRole_DeleteOrphan :: "'s ClusterRole \<Rightarrow> error option" where
  "ClusterRole_DeleteOrphan r = None"

definition NewClusterRole ::
  "(rbacv1_ClusterRole, 's) client \<Rightarrow> string \<Rightarrow> rbacv1_ClusterRole option
     \<Rightarrow> 's ClusterRole \<times> rbacv1_ClusterRole option" where
  "NewClusterRole c name in_ptr =
     (let obj = (case in_ptr of None \<Rightarrow> empty_ClusterRole | Some b \<Rightarrow> b);
          obj = obj\<lparr>Name := name\<rparr>
      in (\<lparr>r_client = c, r_ClusterRole = obj\<rparr>, map_option (\<lambda>b. obj) in_ptr))"

definition ClusterRole_Clone :: "'s ClusterRole \<Rightarrow> 's ClusterRole" where
  "ClusterRole_Clone r = (let clone = r in clone)"

definition ClusterRole_ID :: "'s ClusterRole \<Rightarrow> ID" where
  "ClusterRole_ID r = ID ''ClusterRole'' (Name (r_ClusterRole r)) (Namespace (r_ClusterRole r))"

definition ClusterRole_Apply ::
  "(rbacv1_ClusterRole \<Rightarrow> error + string) \<Rightarrow> 's ClusterRole \<Rightarrow> (rbacv1_ClusterRole, 's) world
     \<Rightarrow> error option \<times> 's ClusterRole \<times> (rbacv1_ClusterRole, 's) world" where
  "ClusterRole_Apply Encode r w =
     (case Encode (r_ClusterRole r) of
        Inl err \<Rightarrow> (Some (Trace err), r, w)
      | Inr data \<Rightarrow>
          (case call_Patch (r_client r) (Name (r_ClusterRole r)) StrategicMergePatchType data
                  JujuFieldManager w of
             (res, w1) \<Rightarrow>
               (case (if k8serrors_IsNotFound (err_of res)
                      then call_Create (r_client r) (r_ClusterRole r) JujuFieldManager w1
                      else (res, w1)) of
                  (res, w2) \<Rightarrow>
                    if k8serrors_IsConflict (err_of res)
                    then (Some (Annotatef errConflict ''cluster role %q'' [Name (r_ClusterRole r)]),
                          r, w2)
                    else (case res of
                            Inl err \<Rightarrow> (Some (Trace (K8s err)), r, w2)
                          | Inr obj \<Rightarrow> (None, r\<lparr>r_ClusterRole := obj\<rparr>, w2)))))"

definition ClusterRole_Get ::
  "'s ClusterRole \<Rightarrow> (rbacv1_ClusterRole, 's) world
     \<Rightarrow> error option \<times> 's ClusterRole \<times> (rbacv1_ClusterRole, 's) world" where
  "ClusterRole_Get r w =
     (case call_Get (r_client r) (Name (r_ClusterRole r)) w of
        (res, w1) \<Rightarrow>
          if k8serrors_IsNotFound (err_of res)
          then (Some (NewNotFound (map_option K8s (err_of res)) ''k8s''), r, w1)
          else (case res of
                  Inl err \<Rightarrow> (Some (Trace (K8s err)), r, w1)
                | Inr obj \<Rightarrow> (None, r\<lparr>r_ClusterRole := obj\<rparr>, w1)))"

definition ClusterRole_Delete ::
  "'s ClusterRole \<Rightarrow> (rbacv1_ClusterRole, 's) world
     \<Rightarrow> error option \<times> 's ClusterRole \<times> (rbacv1_ClusterRole, 's) world" where
  "ClusterRole_Delete r w =
     (case call_Delete (r_client r) (Name (r_ClusterRole r)) DefaultPropagationPolicy w of
        (err, w1) \<Rightarrow>
          if k8serrors_IsNotFound err
          then (Some (NewNotFound (map_option K8s err) ''k8s cluster role for deletion''), r, w1)
          else (errors_Trace err, r, w1))"

definition ClusterRole_Update ::
  "'s ClusterRole \<Rightarrow> (rbacv1_ClusterRole, 's) world
     \<Rightarrow> error option \<times> 's ClusterRole \<times> (rbacv1_ClusterRole, 's) world" where
  "ClusterRole_Update r w =
     (case call_Update (r_client r) (r_ClusterRole r) JujuFieldManager w of
        (out, w1) \<Rightarrow>
          if k8serrors_IsNotFound (err_of out)
          then (Some (NewNotFound (map_option K8s (err_of out)) ''updating cluster role''), r, w1)
          else (case out of
                  Inl err \<Rightarrow> (Some (Trace (K8s err)), r, w1)
                | Inr obj \<Rightarrow> (None, r\<lparr>r_ClusterRole := obj\<rparr>, w1)))"

definition ClusterRole_ComputeStatus ::
  "'s ClusterRole \<Rightarrow> time \<Rightarrow> string \<times> Status \<times> time \<times> error option" where
  "ClusterRole_ComputeStatus r now =
     (case DeletionTimestamp (r_ClusterRole r) of
        Some t \<Rightarrow> ('''', Terminated, t, None)
      | None \<Rightarrow> ('''', Active, now, None))"

text \<open>
  \<open>Ensure\<close> returns Go's pair of the cleanup list and the error. Its one closure,
  \<open>func() { _ = r.Delete(ctx) }\<close>, holds the receiver's pointer: run later, it deletes
  by the name the receiver has then and drops the error. A claim is a function from the
  live object to Go's pair of verdict and error; \<open>RunClaims(claims...).Assert\<close>, which is
  declared outside the listed sources, is the parameter \<open>RunClaims\<close>.
\<close>

datatype cleanup = Delete_receiver

definition run_cleanup ::
  "cleanup \<Rightarrow> 's ClusterRole \<Rightarrow> (rbacv1_ClusterRole, 's) world
     \<Rightarrow> 's ClusterRole \<times> (rbacv1_ClusterRole, 's) world" where
  "run_cleanup f r w =
     (case f of Delete_receiver \<Rightarrow> (case ClusterRole_Delete r w of (err, r', w') \<Rightarrow> (r', w')))"

type_synonym Claim = "rbacv1_ClusterRole \<Rightarrow> bool \<times> error option"

definition ClusterRole_Ensure ::
  "(Claim list \<Rightarrow> rbacv1_ClusterRole \<Rightarrow> bool \<times> error option)
     \<Rightarrow> (rbacv1_ClusterRole \<Rightarrow> error + string)
     \<Rightarrow> 's ClusterRole \<Rightarrow> Claim list \<Rightarrow> (rbacv1_ClusterRole, 's) world
     \<Rightarrow> (cleanup list \<times> error option) \<times> 's ClusterRole \<times> (rbacv1_ClusterRole, 's) world" where
  "ClusterRole_Ensure RunClaims Encode r claims w =
     (let cleanups = [];
          hasClaim = True;
          existing = \<lparr>r_client = r_client r, r_ClusterRole = r_ClusterRole r\<rparr>
      in case ClusterRole_Get existing w of
           (err, existing, w1) \<Rightarrow>
             (case (if err = None then RunClaims claims (r_ClusterRole existing)
                    else (hasClaim, err)) of
                (hasClaim, err) \<Rightarrow>
                  if err \<noteq> None \<and> \<not> errors_IsNotFound err
                  then ((cleanups,
                         errors_Annotatef err ''checking for existing cluster role %q''
                           [Name (r_ClusterRole existing)]), r, w1)
                  else if \<not> hasClaim
                  then ((cleanups,
                         Some (AlreadyExistsf ''cluster role %q not controlled by juju''
                                 [Name (r_ClusterRole r)])), r, w1)
                  else (let cleanups = cleanups @ [Delete_receiver]
                        in if errors_IsNotFound err
                           then (case ClusterRole_Apply Encode r w1 of
                                   (err, r', w2) \<Rightarrow> ((cleanups, err), r', w2))
                           else (case ClusterRole_Update r w1 of
                                   (err, r', w2) \<Rightarrow>
                                     if err \<noteq> None then ((cleanups, err), r', w2)
                                     else ((cleanups, None), r', w2)))))"

partial_function (option) ListClusterRoles_loop ::
  "(rbacv1_ClusterRole, 's) client \<Rightarrow> ListOptions \<Rightarrow> 's ClusterRole list
     \<Rightarrow> (rbacv1_ClusterRole, 's) world
     \<Rightarrow> (('s ClusterRole list \<times> error option) \<times> (rbacv1_ClusterRole, 's) world) option" where
  "ListClusterRoles_loop c opts items w =
     (case call_List c opts w of
        (res, w1) \<Rightarrow>
          (case res of
             Inl err \<Rightarrow> Some (([], Some (Trace (K8s err))), w1)
           | Inr page \<Rightarrow>
               (let items = foldl (\<lambda>items item.
                                     items @ [fst (NewClusterRole c (Name item) (Some item))])
                              items (Items page)
                in if ListMeta_Continue page = '''' then Some ((items, None), w1)
                   else ListClusterRoles_loop c
                          (opts\<lparr>Continue := ListMeta_Continue page\<rparr>) items w1)))"

definition ListClusterRoles ::
  "(rbacv1_ClusterRole, 's) client \<Rightarrow> ListOptions \<Rightarrow> (rbacv1_ClusterRole, 's) world
     \<Rightarrow> (('s ClusterRole list \<times> error option) \<times> (rbacv1_ClusterRole, 's) world) option" where
  "ListClusterRoles c opts w = ListClusterRoles_loop c opts [] w"

section \<open>Resources behind pointers\<close>

text \<open>
  Callers hold resources by pointer. The heap of resource structs is a list, the address
  of a struct its index; a new struct is put at the end. \<open>Clone_at\<close> is \<open>Clone\<close> called
  through a pointer: it returns the address of the copy. \<open>method_at\<close> calls a method with
  a pointer receiver and writes the receiver back. Both panic on a dangling pointer
  (\<open>None\<close>).
\<close>

definition alloc :: "'r \<Rightarrow> 'r list \<Rightarrow> nat \<times> 'r list" where
  "alloc v h = (length h, h @ [v])"

definition Clone_at :: "('r \<Rightarrow> 'r) \<Rightarrow> nat \<Rightarrow> 'r list \<Rightarrow> (nat \<times> 'r list) option" where
  "Clone_at Clone p h = (if p < length h then Some (alloc (Clone (h ! p)) h) else None)"

definition method_at ::
  "('r \<Rightarrow> 'w \<Rightarrow> error option \<times> 'r \<times> 'w) \<Rightarrow> nat \<Rightarrow> 'r list \<Rightarrow> 'w
     \<Rightarrow> (error option \<times> 'r list \<times> 'w) option" where
  "method_at m p h w =
     (if p < length h
      then (case m (h ! p) w of (err, r', w') \<Rightarrow> Some (err, h[p := r'], w'))
      else None)"

section \<open>Servers that page\<close>

text \<open>
  \<open>chained c opts s pages s'\<close>: asked with \<open>opts\<close> in state \<open>s\<close>, the server hands out
  exactly \<open>pages\<close>, each but the last with a non-empty continuation token that the next
  request carries, the last with the empty token, and is left in state \<open>s'\<close>.
  \<open>chained_until_error c opts s pages e\<close>: it hands out \<open>pages\<close>, each with a non-empty
  token, and answers the next request with the error \<open>e\<close>.
\<close>

fun chained :: "('b, 's) client \<Rightarrow> ListOptions \<Rightarrow> 's \<Rightarrow> 'b list list \<Rightarrow> 's \<Rightarrow> bool" where
  "chained c opts s [] s' = False"
| "chained c opts s (p # ps) s' =
     (case client_List c opts s of
        (Inl e, s1) \<Rightarrow> False
      | (Inr page, s1) \<Rightarrow>
          Items page = p \<and>
          (if ps = [] then ListMeta_Continue page = '''' \<and> s1 = s'
           else ListMeta_Continue page \<noteq> '''' \<and>
                chained c (opts\<lparr>Continue := ListMeta_Continue page\<rparr>) s1 ps s'))"

fun chained_until_error ::
  "('b, 's) client \<Rightarrow> ListOptions \<Rightarrow> 's \<Rightarrow> 'b list list \<Rightarrow> api_error \<Rightarrow> bool" where
  "chained_until_error c opts s [] e =
     (case client_List c opts s of (Inl e', s1) \<Rightarrow> e' = e | (Inr page, s1) \<Rightarrow> False)"
| "chained_until_error c opts s (p # ps) e =
     (case client_List c opts s of
        (Inl e', s1) \<Rightarrow> False
      | (Inr page, s1) \<Rightarrow>
          Items page = p \<and> ListMeta_Continue page \<noteq> '''' \<and>
          chained_until_error c (opts\<lparr>Continue := ListMeta_Continue page\<rparr>) s1 ps e)"

section \<open>Stub clients and sample objects\<close>

text \<open>
  A client that answers every call of a method with the same response and counts the
  requests it served; its list call answers by the continuation token of the request.
\<close>

definition fixed_client ::
  "(api_error + 'b) \<Rightarrow> (api_error + 'b) \<Rightarrow> (api_error + 'b) \<Rightarrow> (api_error + 'b)
     \<Rightarrow> api_error option \<Rightarrow> (string \<Rightarrow> api_error + 'b ObjectList) \<Rightarrow> ('b, nat) client" where
  "fixed_client patch create update get del pages =
     \<lparr>client_Patch = (\<lambda>name pt data fm s. (patch, Suc s)),
      client_Create = (\<lambda>obj fm s. (create, Suc s)),
      client_Update = (\<lambda>obj fm s. (update, Suc s)),
      client_Get = (\<lambda>name s. (get, Suc s)),
      client_Delete = (\<lambda>name pp s. (del, Suc s)),
      client_List = (\<lambda>opts s. (pages (Continue opts), Suc s))\<rparr>"

definition not_found :: api_error where
  "not_found = StatusError StatusReasonNotFound ''not found''"

definition conflict :: api_error where
  "conflict = StatusError StatusReasonConflict ''the object has been modified''"

definition unavailable :: api_error where
  "unavailable = ClientError ''connection refused''"

definition no_pages :: "string \<Rightarrow> api_error + 'b ObjectList" where
  "no_pages tok = Inr \<lparr>Items = [], ListMeta_Continue = ''''\<rparr>"

definition absent_client :: "('b, nat) client" where
  "absent_client =
     fixed_client (Inl not_found) (Inl conflict) (Inl not_found) (Inl not_found)
       (Some not_found) no_pages"

definition web :: appsv1_Deployment where
  "web = \<lparr>Name = ''web'', Namespace = ''prod'', DeletionTimestamp = None, Labels = Some 0,
          Deployment_Spec = ''replicas: 3'',
          Deployment_Status = \<lparr>Replicas = 3, ReadyReplicas = 3\<rparr>\<rparr>"

definition agent :: appsv1_DaemonSet where
  "agent = \<lparr>Name = ''agent'', Namespace = ''prod'', DeletionTimestamp = None, Labels = Some 1,
            DaemonSet_Spec = ''image: agent'',
            DaemonSet_Status = \<lparr>DesiredNumberScheduled = 5, NumberReady = 4\<rparr>\<rparr>"

definition admin :: rbacv1_ClusterRole where
  "admin = \<lparr>Name = ''admin'', Namespace = ''kube-system'', DeletionTimestamp = Some 1700,
            Labels = None, Rules = [''get pods'']\<rparr>"

definition world0 :: "('b, nat) world" where
  "world0 = \<lparr>server = 0, calls = []\<rparr>"

definition json :: "'b \<Rightarrow> error + string" where
  "json obj = Inr ''{}''"

definition conflict_client :: "('b, nat) client" where
  "conflict_client =
     fixed_client (Inl conflict) (Inl conflict) (Inl conflict) (Inl conflict)
       (Some conflict) no_pages"

text \<open>
  A stand-in for \<open>RunClaims\<close> in the examples: the verdict of the first claim, and true
  when there is none. \<open>found_client\<close> finds the object \<open>obj\<close> and accepts every write.
\<close>

definition first_claim :: "Claim list \<Rightarrow> rbacv1_ClusterRole \<Rightarrow> bool \<times> error option" where
  "first_claim claims obj = (case claims of [] \<Rightarrow> (True, None) | c # cs \<Rightarrow> c obj)"

definition not_ours :: Claim where
  "not_ours obj = (False, None)"

definition ours :: Claim where
  "ours obj = (True, None)"

definition found_client :: "'b \<Rightarrow> ('b, nat) client" where
  "found_client obj = fixed_client (Inr obj) (Inr obj) (Inr obj) (Inr obj) None no_pages"

text \<open>
  A list call that answers from a table: for a continuation token, the items of the page
  and the token of the next one; a token that is not in the table is an error.
\<close>

definition paged :: "(string \<times> 'b list \<times> string) list \<Rightarrow> string \<Rightarrow> api_error + 'b ObjectList" where
  "paged table tok =
     (case map_of table tok of
        None \<Rightarrow> Inl unavailable
      | Some (items, next) \<Rightarrow> Inr \<lparr>Items = items, ListMeta_Continue = next\<rparr>)"

definition paging_client :: "(string \<times> 'b list \<times> string) list \<Rightarrow> ('b, nat) client" where
  "paging_client table =
     fixed_client (Inl not_found) (Inl conflict) (Inl not_found) (Inl not_found)
       (Some not_found) (paged table)"

definition list_all :: ListOptions where
  "list_all = \<lparr>LabelSelector = ''app=juju'', Continue = ''''\<rparr>"

text \<open>A Deployment resource over the sample body, and a label store with empty tables.\<close>

definition web_resource :: "nat Deployment" where
  "web_resource = \<lparr>d_client = absent_client, d_Deployment = web\<rparr>"

definition no_labels :: label_store where
  "no_labels = (\<lambda>a. Map.empty)"

section \<open>Status derivation\<close>

lemma err_of_simps [simp]: "err_of (Inl e) = Some e" "err_of (Inr x) = None"
  by (simp_all add: err_of_def)

text \<open>
  Claim C6. \<open>ComputeStatus\<close> of a Deployment and of a DaemonSet: with a deletion
  timestamp the state is Terminated and the effective time is that timestamp, not
  \<open>now\<close>; without one the state is Active at \<open>now\<close> when the readiness counters are
  equal (\<open>ReadyReplicas\<close> and \<open>Replicas\<close>, \<open>NumberReady\<close> and
  \<open>DesiredNumberScheduled\<close>) and Waiting at \<open>now\<close> when they differ; no other state
  is returned.
\<close>

theorem ComputeStatus_state_machine:
  "(\<forall>t. DeletionTimestamp (d_Deployment d) = Some t \<longrightarrow>
        Deployment_ComputeStatus d now = ('''', Terminated, t, None))
   \<and> (DeletionTimestamp (d_Deployment d) = None
        \<and> ReadyReplicas (Deployment_Status (d_Deployment d))
            = Replicas (Deployment_Status (d_Deployment d)) \<longrightarrow>
      Deployment_ComputeStatus d now = ('''', Active, now, None))
   \<and> (DeletionTimestamp (d_Deployment d) = None
        \<and> ReadyReplicas (Deployment_Status (d_Deployment d))
            \<noteq> Replicas (Deployment_Status (d_Deployment d)) \<longrightarrow>
      Deployment_ComputeStatus d now = ('''', Waiting, now, None))
   \<and> fst (snd (Deployment_ComputeStatus d now)) \<in> {Active, Waiting, Terminated}
   \<and> (\<forall>t. DeletionTimestamp (ds_DaemonSet ds) = Some t \<longrightarrow>
        DaemonSet_ComputeStatus ds now = ('''', Terminated, t, None))
   \<and> (DeletionTimestamp (ds_DaemonSet ds) = None
        \<and> NumberReady (DaemonSet_Status (ds_DaemonSet ds))
            = DesiredNumberScheduled (DaemonSet_Status (ds_DaemonSet ds)) \<longrightarrow>
      DaemonSet_ComputeStatus ds now = ('''', Active, now, None))
   \<and> (DeletionTimestamp (ds_DaemonSet ds) = None
        \<and> NumberReady (DaemonSet_Status (ds_DaemonSet ds))
            \<noteq> DesiredNumberScheduled (DaemonSet_Status (ds_DaemonSet ds)) \<longrightarrow>
      DaemonSet_ComputeStatus ds now = ('''', Waiting, now, None))
   \<and> fst (snd (DaemonSet_ComputeStatus ds now)) \<in> {Active, Waiting, Terminated}"
  by (simp add: Deployment_ComputeStatus_def DaemonSet_ComputeStatus_def split: option.split)

theorem ComputeStatus_state_machine_witness:
  "Deployment_ComputeStatus \<lparr>d_client = absent_client, d_Deployment = web\<rparr> 2000
     = ('''', Active, 2000, None)
   \<and> Deployment_ComputeStatus
        \<lparr>d_client = absent_client, d_Deployment = web\<lparr>DeletionTimestamp := Some 1700\<rparr>\<rparr> 2000
     = ('''', Terminated, 1700, None)
   \<and> DaemonSet_ComputeStatus \<lparr>ds_client = absent_client, ds_DaemonSet = agent\<rparr> 2000
     = ('''', Waiting, 2000, None)"
  using ComputeStatus_state_machine
          [of "\<lparr>d_client = absent_client, d_Deployment = web\<rparr>" 2000
              "\<lparr>ds_client = absent_client, ds_DaemonSet = agent\<rparr>"]
        ComputeStatus_state_machine
          [of "\<lparr>d_client = absent_client, d_Deployment = web\<lparr>DeletionTimestamp := Some 1700\<rparr>\<rparr>"
              2000 "\<lparr>ds_client = absent_client, ds_DaemonSet = agent\<rparr>"]
  by (simp add: web_def agent_def)

text \<open>
  Claim C9. \<open>ComputeStatus\<close> of a ClusterRole never returns Waiting: without a deletion
  timestamp it is Active at \<open>now\<close>, whatever else the body holds, and with one it is
  Terminated at that timestamp.
\<close>

theorem ClusterRole_ComputeStatus_never_waiting:
  "(DeletionTimestamp (r_ClusterRole r) = None \<longrightarrow>
      ClusterRole_ComputeStatus r now = ('''', Active, now, None))
   \<and> (\<forall>t. DeletionTimestamp (r_ClusterRole r) = Some t \<longrightarrow>
        ClusterRole_ComputeStatus r now = ('''', Terminated, t, None))
   \<and> fst (snd (ClusterRole_ComputeStatus r now)) \<noteq> Waiting"
  by (simp add: ClusterRole_ComputeStatus_def split: option.split)

theorem ClusterRole_ComputeStatus_never_waiting_witness:
  "ClusterRole_ComputeStatus \<lparr>r_client = absent_client, r_ClusterRole = admin\<rparr> 2000
     = ('''', Terminated, 1700, None)
   \<and> ClusterRole_ComputeStatus
        \<lparr>r_client = absent_client, r_ClusterRole = admin\<lparr>DeletionTimestamp := None\<rparr>\<rparr> 2000
     = ('''', Active, 2000, None)"
  using ClusterRole_ComputeStatus_never_waiting
          [of "\<lparr>r_client = absent_client, r_ClusterRole = admin\<rparr>" 2000]
        ClusterRole_ComputeStatus_never_waiting
          [of "\<lparr>r_client = absent_client, r_ClusterRole = admin\<lparr>DeletionTimestamp := None\<rparr>\<rparr>"
              2000]
  by (simp add: admin_def)

section \<open>Get and Delete\<close>

lemma Deployment_Get_Inl:
  "fst (client_Get (d_client d) (Name (d_Deployment d)) (server w)) = Inl e \<Longrightarrow>
   Deployment_Get d w =
     (Some (if k8serrors_IsNotFound (Some e) then NewNotFound (Some (K8s e)) ''k8s''
            else Trace (K8s e)),
      d,
      \<lparr>server = snd (client_Get (d_client d) (Name (d_Deployment d)) (server w)),
       calls = calls w @ [GetCall (Name (d_Deployment d))]\<rparr>)"
  by (cases "client_Get (d_client d) (Name (d_Deployment d)) (server w)")
     (simp add: Deployment_Get_def call_Get_def)

lemma Deployment_Get_Inr:
  "fst (client_Get (d_client d) (Name (d_Deployment d)) (server w)) = Inr obj \<Longrightarrow>
   Deployment_Get d w =
     (None, d\<lparr>d_Deployment := obj\<rparr>,
      \<lparr>server = snd (client_Get (d_client d) (Name (d_Deployment d)) (server w)),
       calls = calls w @ [GetCall (Name (d_Deployment d))]\<rparr>)"
  by (cases "client_Get (d_client d) (Name (d_Deployment d)) (server w)")
     (simp add: Deployment_Get_def call_Get_def)

lemma Deployment_Delete_eq:
  "Deployment_Delete d w =
     ((case fst (client_Delete (d_client d) (Name (d_Deployment d)) DefaultPropagationPolicy (server w)) of
         None \<Rightarrow> None
       | Some e \<Rightarrow> Some (if k8serrors_IsNotFound (Some e)
                         then NewNotFound (Some (K8s e)) ''k8s deployment for deletion''
                         else Trace (K8s e))),
      d,
      \<lparr>server = snd (client_Delete (d_client d) (Name (d_Deployment d)) DefaultPropagationPolicy (server w)),
       calls = calls w @ [DeleteCall (Name (d_Deployment d)) DefaultPropagationPolicy]\<rparr>)"
  by (cases "client_Delete (d_client d) (Name (d_Deployment d)) DefaultPropagationPolicy (server w)")
     (simp add: Deployment_Delete_def call_Delete_def split: option.split)

lemma Deployment_Get_Delete_errors:
  "(\<forall>e. fst (client_Get (d_client d) (Name (d_Deployment d)) (server w)) = Inl e
           \<and> k8serrors_IsNotFound (Some e) \<longrightarrow>
         fst (Deployment_Get d w) = Some (NewNotFound (Some (K8s e)) ''k8s'')
         \<and> errors_IsNotFound (fst (Deployment_Get d w)))
   \<and> (\<forall>e. fst (client_Get (d_client d) (Name (d_Deployment d)) (server w)) = Inl e
           \<and> \<not> k8serrors_IsNotFound (Some e) \<longrightarrow>
         fst (Deployment_Get d w) = Some (Trace (K8s e))
         \<and> \<not> errors_IsNotFound (fst (Deployment_Get d w)))
   \<and> (\<forall>obj. fst (client_Get (d_client d) (Name (d_Deployment d)) (server w)) = Inr obj \<longrightarrow>
         fst (Deployment_Get d w) = None
         \<and> fst (snd (Deployment_Get d w)) = d\<lparr>d_Deployment := obj\<rparr>)
   \<and> (fst (Deployment_Get d w) \<noteq> None \<longrightarrow> fst (snd (Deployment_Get d w)) = d)
   \<and> (\<forall>e. fst (client_Delete (d_client d) (Name (d_Deployment d)) DefaultPropagationPolicy (server w))
             = Some e
           \<and> k8serrors_IsNotFound (Some e) \<longrightarrow>
         fst (Deployment_Delete d w) = Some (NewNotFound (Some (K8s e)) ''k8s deployment for deletion'')
         \<and> errors_IsNotFound (fst (Deployment_Delete d w)))
   \<and> (fst (Deployment_Delete d w) = None \<longrightarrow>
         fst (client_Delete (d_client d) (Name (d_Deployment d)) DefaultPropagationPolicy (server w))
           = None)"
proof (intro conjI allI impI)
  show "fst (snd (Deployment_Get d w)) = d" if "fst (Deployment_Get d w) \<noteq> None"
    using that
    by (cases "fst (client_Get (d_client d) (Name (d_Deployment d)) (server w))")
       (simp_all add: Deployment_Get_Inl Deployment_Get_Inr)
  show "fst (client_Delete (d_client d) (Name (d_Deployment d)) DefaultPropagationPolicy (server w)) = None" if "fst (Deployment_Delete d w) = None"
    using that by (simp add: Deployment_Delete_eq split: option.splits)
qed (simp_all add: Deployment_Get_Inl Deployment_Get_Inr Deployment_Delete_eq)

lemma DaemonSet_Get_Inl:
  "fst (client_Get (ds_client ds) (Name (ds_DaemonSet ds)) (server w')) = Inl e \<Longrightarrow>
   DaemonSet_Get ds w' =
     (Some (if k8serrors_IsNotFound (Some e) then NewNotFound (Some (K8s e)) ''k8s''
            else Trace (K8s e)),
      ds,
      \<lparr>server = snd (client_Get (ds_client ds) (Name (ds_DaemonSet ds)) (server w')),
       calls = calls w' @ [GetCall (Name (ds_DaemonSet ds))]\<rparr>)"
  by (cases "client_Get (ds_client ds) (Name (ds_DaemonSet ds)) (server w')")
     (simp add: DaemonSet_Get_def call_Get_def)

lemma DaemonSet_Get_Inr:
  "fst (client_Get (ds_client ds) (Name (ds_DaemonSet ds)) (server w')) = Inr obj \<Longrightarrow>
   DaemonSet_Get ds w' =
     (None, ds\<lparr>ds_DaemonSet := obj\<rparr>,
      \<lparr>server = snd (client_Get (ds_client ds) (Name (ds_DaemonSet ds)) (server w')),
       calls = calls w' @ [GetCall (Name (ds_DaemonSet ds))]\<rparr>)"
  by (cases "client_Get (ds_client ds) (Name (ds_DaemonSet ds)) (server w')")
     (simp add: DaemonSet_Get_def call_Get_def)

lemma DaemonSet_Delete_eq:
  "DaemonSet_Delete ds w' =
     ((case fst (client_Delete (ds_client ds) (Name (ds_DaemonSet ds)) DefaultPropagationPolicy (server w')) of
         None \<Rightarrow> None
       | Some e \<Rightarrow> Some (if k8serrors_IsNotFound (Some e)
                         then NewNotFound (Some (K8s e)) ''k8s daemon set for deletion''
                         else Trace (K8s e))),
      ds,
      \<lparr>server = snd (client_Delete (ds_client ds) (Name (ds_DaemonSet ds)) DefaultPropagationPolicy (server w')),
       calls = calls w' @ [DeleteCall (Name (ds_DaemonSet ds)) DefaultPropagationPolicy]\<rparr>)"
  by (cases "client_Delete (ds_client ds) (Name (ds_DaemonSet ds)) DefaultPropagationPolicy (server w')")
     (simp add: DaemonSet_Delete_def call_Delete_def split: option.split)

lemma DaemonSet_Get_Delete_errors:
  "(\<forall>e. fst (client_Get (ds_client ds) (Name (ds_DaemonSet ds)) (server w')) = Inl e
           \<and> k8serrors_IsNotFound (Some e) \<longrightarrow>
         fst (DaemonSet_Get ds w') = Some (NewNotFound (Some (K8s e)) ''k8s'')
         \<and> errors_IsNotFound (fst (DaemonSet_Get ds w')))
   \<and> (\<forall>e. fst (client_Get (ds_client ds) (Name (ds_DaemonSet ds)) (server w')) = Inl e
           \<and> \<not> k8serrors_IsNotFound (Some e) \<longrightarrow>
         fst (DaemonSet_Get ds w') = Some (Trace (K8s e))
         \<and> \<not> errors_IsNotFound (fst (DaemonSet_Get ds w')))
   \<and> (\<forall>obj. fst (client_Get (ds_client ds) (Name (ds_DaemonSet ds)) (server w')) = Inr obj \<longrightarrow>
         fst (DaemonSet_Get ds w') = None
         \<and> fst (snd (DaemonSet_Get ds w')) = ds\<lparr>ds_DaemonSet := obj\<rparr>)
   \<and> (fst (DaemonSet_Get ds w') \<noteq> None \<longrightarrow> fst (snd (DaemonSet_Get ds w')) = ds)
   \<and> (\<forall>e. fst (client_Delete (ds_client ds) (Name (ds_DaemonSet ds)) DefaultPropagationPolicy (server w'))
             = Some e
           \<and> k8serrors_IsNotFound (Some e) \<longrightarrow>
         fst (DaemonSet_Delete ds w') = Some (NewNotFound (Some (K8s e)) ''k8s daemon set for deletion'')
         \<and> errors_IsNotFound (fst (DaemonSet_Delete ds w')))
   \<and> (fst (DaemonSet_Delete ds w') = None \<longrightarrow>
         fst (client_Delete (ds_client ds) (Name (ds_DaemonSet ds)) DefaultPropagationPolicy (server w'))
           = None)"
proof (intro conjI allI impI)
  show "fst (snd (DaemonSet_Get ds w')) = ds" if "fst (DaemonSet_Get ds w') \<noteq> None"
    using that
    by (cases "fst (client_Get (ds_client ds) (Name (ds_DaemonSet ds)) (server w'))")
       (simp_all add: DaemonSet_Get_Inl DaemonSet_Get_Inr)
  show "fst (client_Delete (ds_client ds) (Name (ds_DaemonSet ds)) DefaultPropagationPolicy (server w')) = None" if "fst (DaemonSet_Delete ds w') = None"
    using that by (simp add: DaemonSet_Delete_eq split: option.splits)
qed (simp_all add: DaemonSet_Get_Inl DaemonSet_Get_Inr DaemonSet_Delete_eq)

lemma ClusterRole_Get_Inl:
  "fst (client_Get (r_client r) (Name (r_ClusterRole r)) (server w'')) = Inl e \<Longrightarrow>
   ClusterRole_Get r w'' =
     (Some (if k8serrors_IsNotFound (Some e) then NewNotFound (Some (K8s e)) ''k8s''
            else Trace (K8s e)),
      r,
      \<lparr>server = snd (client_Get (r_client r) (Name (r_ClusterRole r)) (server w'')),
       calls = calls w'' @ [GetCall (Name (r_ClusterRole r))]\<rparr>)"
  by (cases "client_Get (r_client r) (Name (r_ClusterRole r)) (server w'')")
     (simp add: ClusterRole_Get_def call_Get_def)

lemma ClusterRole_Get_Inr:
  "fst (client_Get (r_client r) (Name (r_ClusterRole r)) (server w'')) = Inr obj \<Longrightarrow>
   ClusterRole_Get r w'' =
     (None, r\<lparr>r_ClusterRole := obj\<rparr>,
      \<lparr>server = snd (client_Get (r_client r) (Name (r_ClusterRole r)) (server w'')),
       calls = calls w'' @ [GetCall (Name (r_ClusterRole r))]\<rparr>)"
  by (cases "client_Get (r_client r) (Name (r_ClusterRole r)) (server w'')")
     (simp add: ClusterRole_Get_def call_Get_def)

lemma ClusterRole_Delete_eq:
  "ClusterRole_Delete r w'' =
     ((case fst (client_Delete (r_client r) (Name (r_ClusterRole r)) DefaultPropagationPolicy (server w'')) of
         None \<Rightarrow> None
       | Some e \<Rightarrow> Some (if k8serrors_IsNotFound (Some e)
                         then NewNotFound (Some (K8s e)) ''k8s cluster role for deletion''
                         else Trace (K8s e))),
      r,
      \<lparr>server = snd (client_Delete (r_client r) (Name (r_ClusterRole r)) DefaultPropagationPolicy (server w'')),
       calls = calls w'' @ [DeleteCall (Name (r_ClusterRole r)) DefaultPropagationPolicy]\<rparr>)"
  by (cases "client_Delete (r_client r) (Name (r_ClusterRole r)) DefaultPropagationPolicy (server w'')")
     (simp add: ClusterRole_Delete_def call_Delete_def split: option.split)

lemma ClusterRole_Get_Delete_errors:
  "(\<forall>e. fst (client_Get (r_client r) (Name (r_ClusterRole r)) (server w'')) = Inl e
           \<and> k8serrors_IsNotFound (Some e) \<longrightarrow>
         fst (ClusterRole_Get r w'') = Some (NewNotFound (Some (K8s e)) ''k8s'')
         \<and> errors_IsNotFound (fst (ClusterRole_Get r w'')))
   \<and> (\<forall>e. fst (client_Get (r_client r) (Name (r_ClusterRole r)) (server w'')) = Inl e
           \<and> \<not> k8serrors_IsNotFound (Some e) \<longrightarrow>
         fst (ClusterRole_Get r w'') = Some (Trace (K8s e))
         \<and> \<not> errors_IsNotFound (fst (ClusterRole_Get r w'')))
   \<and> (\<forall>obj. fst (client_Get (r_client r) (Name (r_ClusterRole r)) (server w'')) = Inr obj \<longrightarrow>
         fst (ClusterRole_Get r w'') = None
         \<and> fst (snd (ClusterRole_Get r w'')) = r\<lparr>r_ClusterRole := obj\<rparr>)
   \<and> (fst (ClusterRole_Get r w'') \<noteq> None \<longrightarrow> fst (snd (ClusterRole_Get r w'')) = r)
   \<and> (\<forall>e. fst (client_Delete (r_client r) (Name (r_ClusterRole r)) DefaultPropagationPolicy (server w''))
             = Some e
           \<and> k8serrors_IsNotFound (Some e) \<longrightarrow>
         fst (ClusterRole_Delete r w'') = Some (NewNotFound (Some (K8s e)) ''k8s cluster role for deletion'')
         \<and> errors_IsNotFound (fst (ClusterRole_Delete r w'')))
   \<and> (fst (ClusterRole_Delete r w'') = None \<longrightarrow>
         fst (client_Delete (r_client r) (Name (r_ClusterRole r)) DefaultPropagationPolicy (server w''))
           = None)"
proof (intro conjI allI impI)
  show "fst (snd (ClusterRole_Get r w'')) = r" if "fst (ClusterRole_Get r w'') \<noteq> None"
    using that
    by (cases "fst (client_Get (r_client r) (Name (r_ClusterRole r)) (server w''))")
       (simp_all add: ClusterRole_Get_Inl ClusterRole_Get_Inr)
  show "fst (client_Delete (r_client r) (Name (r_ClusterRole r)) DefaultPropagationPolicy (server w'')) = None" if "fst (ClusterRole_Delete r w'') = None"
    using that by (simp add: ClusterRole_Delete_eq split: option.splits)
qed (simp_all add: ClusterRole_Get_Inl ClusterRole_Get_Inr ClusterRole_Delete_eq)

text \<open>
  Claim C7. For each kind, \<open>Get\<close> turns a not-found response into a \<open>NotFound\<close> error
  of \<open>juju/errors\<close> wrapping it, returns every other error traced, and replaces the local
  body by the server's object on success and only then; \<open>Delete\<close> turns a not-found
  response into a \<open>NotFound\<close> error as well, and returns nil only if the server
  reported no error.
\<close>

theorem Get_Delete_not_found_mapping:
  "((\<forall>e. fst (client_Get (d_client d) (Name (d_Deployment d)) (server w)) = Inl e
            \<and> k8serrors_IsNotFound (Some e) \<longrightarrow>
          fst (Deployment_Get d w) = Some (NewNotFound (Some (K8s e)) ''k8s'')
          \<and> errors_IsNotFound (fst (Deployment_Get d w)))
    \<and> (\<forall>e. fst (client_Get (d_client d) (Name (d_Deployment d)) (server w)) = Inl e
            \<and> \<not> k8serrors_IsNotFound (Some e) \<longrightarrow>
          fst (Deployment_Get d w) = Some (Trace (K8s e))
          \<and> \<not> errors_IsNotFound (fst (Deployment_Get d w)))
    \<and> (\<forall>obj. fst (client_Get (d_client d) (Name (d_Deployment d)) (server w)) = Inr obj \<longrightarrow>
          fst (Deployment_Get d w) = None
          \<and> fst (snd (Deployment_Get d w)) = d\<lparr>d_Deployment := obj\<rparr>)
    \<and> (fst (Deployment_Get d w) \<noteq> None \<longrightarrow> fst (snd (Deployment_Get d w)) = d)
    \<and> (\<forall>e. fst (client_Delete (d_client d) (Name (d_Deployment d)) DefaultPropagationPolicy (server w))
              = Some e
            \<and> k8serrors_IsNotFound (Some e) \<longrightarrow>
          fst (Deployment_Delete d w) = Some (NewNotFound (Some (K8s e)) ''k8s deployment for deletion'')
          \<and> errors_IsNotFound (fst (Deployment_Delete d w)))
    \<and> (fst (Deployment_Delete d w) = None \<longrightarrow>
          fst (client_Delete (d_client d) (Name (d_Deployment d)) DefaultPropagationPolicy (server w))
            = None))
   \<and> ((\<forall>e. fst (client_Get (ds_client ds) (Name (ds_DaemonSet ds)) (server w')) = Inl e
            \<and> k8serrors_IsNotFound (Some e) \<longrightarrow>
          fst (DaemonSet_Get ds w') = Some (NewNotFound (Some (K8s e)) ''k8s'')
          \<and> errors_IsNotFound (fst (DaemonSet_Get ds w')))
    \<and> (\<forall>e. fst (client_Get (ds_client ds) (Name (ds_DaemonSet ds)) (server w')) = Inl e
            \<and> \<not> k8serrors_IsNotFound (Some e) \<longrightarrow>
          fst (DaemonSet_Get ds w') = Some (Trace (K8s e))
          \<and> \<not> errors_IsNotFound (fst (DaemonSet_Get ds w')))
    \<and> (\<forall>obj. fst (client_Get (ds_client ds) (Name (ds_DaemonSet ds)) (server w')) = Inr obj \<longrightarrow>
          fst (DaemonSet_Get ds w') = None
          \<and> fst (snd (DaemonSet_Get ds w')) = ds\<lparr>ds_DaemonSet := obj\<rparr>)
    \<and> (fst (DaemonSet_Get ds w') \<noteq> None \<longrightarrow> fst (snd (DaemonSet_Get ds w')) = ds)
    \<and> (\<forall>e. fst (client_Delete (ds_client ds) (Name (ds_DaemonSet ds)) DefaultPropagationPolicy (server w'))
              = Some e
            \<and> k8serrors_IsNotFound (Some e) \<longrightarrow>
          fst (DaemonSet_Delete ds w') = Some (NewNotFound (Some (K8s e)) ''k8s daemon set for deletion'')
          \<and> errors_IsNotFound (fst (DaemonSet_Delete ds w')))
    \<and> (fst (DaemonSet_Delete ds w') = None \<longrightarrow>
          fst (client_Delete (ds_client ds) (Name (ds_DaemonSet ds)) DefaultPropagationPolicy (server w'))
            = None))
   \<and> ((\<forall>e. fst (client_Get (r_client r) (Name (r_ClusterRole r)) (server w'')) = Inl e
            \<and> k8serrors_IsNotFound (Some e) \<longrightarrow>
          fst (ClusterRole_Get r w'') = Some (NewNotFound (Some (K8s e)) ''k8s'')
          \<and> errors_IsNotFound (fst (ClusterRole_Get r w'')))
    \<and> (\<forall>e. fst (client_Get (r_client r) (Name (r_ClusterRole r)) (server w'')) = Inl e
            \<and> \<not> k8serrors_IsNotFound (Some e) \<longrightarrow>
          fst (ClusterRole_Get r w'') = Some (Trace (K8s e))
          \<and> \<not> errors_IsNotFound (fst (ClusterRole_Get r w'')))
    \<and> (\<forall>obj. fst (client_Get (r_client r) (Name (r_ClusterRole r)) (server w'')) = Inr obj \<longrightarrow>
          fst (ClusterRole_Get r w'') = None
          \<and> fst (snd (ClusterRole_Get r w'')) = r\<lparr>r_ClusterRole := obj\<rparr>)
    \<and> (fst (ClusterRole_Get r w'') \<noteq> None \<longrightarrow> fst (snd (ClusterRole_Get r w'')) = r)
    \<and> (\<forall>e. fst (client_Delete (r_client r) (Name (r_ClusterRole r)) DefaultPropagationPolicy (server w''))
              = Some e
            \<and> k8serrors_IsNotFound (Some e) \<longrightarrow>
          fst (ClusterRole_Delete r w'') = Some (NewNotFound (Some (K8s e)) ''k8s cluster role for deletion'')
          \<and> errors_IsNotFound (fst (ClusterRole_Delete r w'')))
    \<and> (fst (ClusterRole_Delete r w'') = None \<longrightarrow>
          fst (client_Delete (r_client r) (Name (r_ClusterRole r)) DefaultPropagationPolicy (server w''))
            = None))"
  by (rule conjI, rule Deployment_Get_Delete_errors,
      rule conjI, rule DaemonSet_Get_Delete_errors, rule ClusterRole_Get_Delete_errors)

theorem Get_Delete_not_found_mapping_witness:
  "fst (Deployment_Get \<lparr>d_client = absent_client, d_Deployment = web\<rparr> world0)
     = Some (NewNotFound (Some (K8s not_found)) ''k8s'')
   \<and> fst (DaemonSet_Get
            \<lparr>ds_client = fixed_client (Inr agent) (Inr agent) (Inr agent)
                           (Inr (agent\<lparr>Labels := None\<rparr>)) None no_pages,
             ds_DaemonSet = agent\<rparr> world0) = None
   \<and> ds_DaemonSet (fst (snd (DaemonSet_Get
            \<lparr>ds_client = fixed_client (Inr agent) (Inr agent) (Inr agent)
                           (Inr (agent\<lparr>Labels := None\<rparr>)) None no_pages,
             ds_DaemonSet = agent\<rparr> world0))) = agent\<lparr>Labels := None\<rparr>
   \<and> fst (ClusterRole_Get
            \<lparr>r_client = fixed_client (Inl unavailable) (Inl unavailable) (Inl unavailable)
                          (Inl unavailable) (Some unavailable) no_pages,
             r_ClusterRole = admin\<rparr> world0) = Some (Trace (K8s unavailable))
   \<and> fst (ClusterRole_Delete \<lparr>r_client = absent_client, r_ClusterRole = admin\<rparr> world0)
     = Some (NewNotFound (Some (K8s not_found)) ''k8s cluster role for deletion'')"
  using Get_Delete_not_found_mapping
          [of "\<lparr>d_client = absent_client, d_Deployment = web\<rparr>" world0
              "\<lparr>ds_client = fixed_client (Inr agent) (Inr agent) (Inr agent)
                             (Inr (agent\<lparr>Labels := None\<rparr>)) None no_pages,
                ds_DaemonSet = agent\<rparr>" world0
              "\<lparr>r_client = fixed_client (Inl unavailable) (Inl unavailable) (Inl unavailable)
                            (Inl unavailable) (Some unavailable) no_pages,
                r_ClusterRole = admin\<rparr>" world0]
        Get_Delete_not_found_mapping
          [of "\<lparr>d_client = absent_client, d_Deployment = web\<rparr>" world0
              "\<lparr>ds_client = absent_client, ds_DaemonSet = agent\<rparr>" world0
              "\<lparr>r_client = absent_client, r_ClusterRole = admin\<rparr>" world0]
  by (simp add: fixed_client_def absent_client_def not_found_def unavailable_def world0_def)

section \<open>Constructors\<close>

lemma NewDeployment_eq:
  "NewDeployment c namespace name in_ptr =
     (\<lparr>d_client = c,
       d_Deployment = (case in_ptr of None \<Rightarrow> empty_Deployment | Some b \<Rightarrow> b)
                        \<lparr>Name := name, Namespace := namespace\<rparr>\<rparr>,
      map_option (\<lambda>b. b\<lparr>Name := name, Namespace := namespace\<rparr>) in_ptr)"
  by (cases in_ptr) (simp_all add: NewDeployment_def Let_def)

lemma NewDaemonSet_eq:
  "NewDaemonSet c namespace name in_ptr =
     (\<lparr>ds_client = c,
       ds_DaemonSet = (case in_ptr of None \<Rightarrow> empty_DaemonSet | Some b \<Rightarrow> b)
                        \<lparr>Name := name, Namespace := namespace\<rparr>\<rparr>,
      map_option (\<lambda>b. b\<lparr>Name := name, Namespace := namespace\<rparr>) in_ptr)"
  by (cases in_ptr) (simp_all add: NewDaemonSet_def Let_def)

lemma NewClusterRole_eq:
  "NewClusterRole c name in_ptr =
     (\<lparr>r_client = c,
       r_ClusterRole = (case in_ptr of None \<Rightarrow> empty_ClusterRole | Some b \<Rightarrow> b)
                         \<lparr>Name := name\<rparr>\<rparr>,
      map_option (\<lambda>b. b\<lparr>Name := name\<rparr>) in_ptr)"
  by (cases in_ptr) (simp_all add: NewClusterRole_def Let_def)

text \<open>
  Claim C10, as the code has it. \<open>NewDeployment\<close> and \<open>NewDaemonSet\<close> write their name and
  namespace arguments onto the body they are given, over whatever it held, in the caller's
  own object when the pointer is not nil, and the resource's \<open>ID\<close> is the kind with
  these two arguments, for the nil pointer too. \<open>NewClusterRole\<close> has no namespace
  argument: it writes the name only, the namespace stays what the body held (empty for
  the nil pointer), and the \<open>ID\<close> carries that namespace.
\<close>

theorem constructors_stamp_identity:
  "NewDeployment c namespace name (Some b)
     = (\<lparr>d_client = c, d_Deployment = b\<lparr>Name := name, Namespace := namespace\<rparr>\<rparr>,
        Some (b\<lparr>Name := name, Namespace := namespace\<rparr>))
   \<and> NewDeployment c namespace name None
     = (\<lparr>d_client = c,
         d_Deployment = empty_Deployment\<lparr>Name := name, Namespace := namespace\<rparr>\<rparr>, None)
   \<and> Deployment_ID (fst (NewDeployment c namespace name in_ptr))
     = ID ''Deployment'' name namespace
   \<and> NewDaemonSet c' namespace name (Some b')
     = (\<lparr>ds_client = c', ds_DaemonSet = b'\<lparr>Name := name, Namespace := namespace\<rparr>\<rparr>,
        Some (b'\<lparr>Name := name, Namespace := namespace\<rparr>))
   \<and> NewDaemonSet c' namespace name None
     = (\<lparr>ds_client = c',
         ds_DaemonSet = empty_DaemonSet\<lparr>Name := name, Namespace := namespace\<rparr>\<rparr>, None)
   \<and> DaemonSet_ID (fst (NewDaemonSet c' namespace name in_ptr'))
     = ID ''DaemonSet'' name namespace
   \<and> NewClusterRole c'' name (Some b'')
     = (\<lparr>r_client = c'', r_ClusterRole = b''\<lparr>Name := name\<rparr>\<rparr>, Some (b''\<lparr>Name := name\<rparr>))
   \<and> NewClusterRole c'' name None
     = (\<lparr>r_client = c'', r_ClusterRole = empty_ClusterRole\<lparr>Name := name\<rparr>\<rparr>, None)
   \<and> ClusterRole_ID (fst (NewClusterRole c'' name in_ptr''))
     = ID ''ClusterRole'' name
         (case in_ptr'' of None \<Rightarrow> '''' | Some b \<Rightarrow> Namespace b)"
proof (intro conjI)
  show "ClusterRole_ID (fst (NewClusterRole c'' name in_ptr''))
          = ID ''ClusterRole'' name (case in_ptr'' of None \<Rightarrow> '''' | Some b \<Rightarrow> Namespace b)"
    by (cases in_ptr'')
       (simp_all add: NewClusterRole_eq ClusterRole_ID_def empty_ClusterRole_def)
qed (simp_all add: NewDeployment_eq NewDaemonSet_eq NewClusterRole_eq
       Deployment_ID_def DaemonSet_ID_def)

text \<open>
  Claim C10 as written fails for \<open>NewClusterRole\<close>: a namespace already present in the
  body is not overwritten, and it is the namespace of the \<open>ID\<close>.
\<close>

theorem NewClusterRole_namespace_counterexample:
  "Namespace admin = ''kube-system''
   \<and> Namespace (r_ClusterRole (fst (NewClusterRole absent_client ''viewer'' (Some admin))))
       = ''kube-system''
   \<and> ClusterRole_ID (fst (NewClusterRole absent_client ''viewer'' (Some admin)))
       = ID ''ClusterRole'' ''viewer'' ''kube-system''"
  by (simp add: NewClusterRole_eq ClusterRole_ID_def admin_def)

section \<open>Apply\<close>

lemma Deployment_Apply_eq:
  assumes "Encode (d_Deployment d) = Inr data"
  shows "Deployment_Apply Encode d w =
     ((if k8serrors_IsConflict (err_of (if k8serrors_IsNotFound (err_of (fst (client_Patch (d_client d) (Name (d_Deployment d)) StrategicMergePatchType data JujuFieldManager (server w))))
 then fst (client_Create (d_client d) (d_Deployment d) JujuFieldManager
  (snd (client_Patch (d_client d) (Name (d_Deployment d)) StrategicMergePatchType data JujuFieldManager (server w))))
 else fst (client_Patch (d_client d) (Name (d_Deployment d)) StrategicMergePatchType data JujuFieldManager (server w))))
       then Some (Annotatef errConflict ''deployment %q'' [Name (d_Deployment d)])
       else (case (if k8serrors_IsNotFound (err_of (fst (client_Patch (d_client d) (Name (d_Deployment d)) StrategicMergePatchType data JujuFieldManager (server w))))
 then fst (client_Create (d_client d) (d_Deployment d) JujuFieldManager
  (snd (client_Patch (d_client d) (Name (d_Deployment d)) StrategicMergePatchType data JujuFieldManager (server w))))
 else fst (client_Patch (d_client d) (Name (d_Deployment d)) StrategicMergePatchType data JujuFieldManager (server w))) of Inl e \<Rightarrow> Some (Trace (K8s e)) | Inr obj \<Rightarrow> None)),
      (case (if k8serrors_IsNotFound (err_of (fst (client_Patch (d_client d) (Name (d_Deployment d)) StrategicMergePatchType data JujuFieldManager (server w))))
 then fst (client_Create (d_client d) (d_Deployment d) JujuFieldManager
  (snd (client_Patch (d_client d) (Name (d_Deployment d)) StrategicMergePatchType data JujuFieldManager (server w))))
 else fst (client_Patch (d_client d) (Name (d_Deployment d)) StrategicMergePatchType data JujuFieldManager (server w))) of Inl e \<Rightarrow> d | Inr obj \<Rightarrow> d\<lparr>d_Deployment := obj\<rparr>),
      \<lparr>server = (if k8serrors_IsNotFound (err_of (fst (client_Patch (d_client d) (Name (d_Deployment d)) StrategicMergePatchType data JujuFieldManager (server w))))
                 then snd (client_Create (d_client d) (d_Deployment d) JujuFieldManager
  (snd (client_Patch (d_client d) (Name (d_Deployment d)) StrategicMergePatchType data JujuFieldManager (server w))))
                 else snd (client_Patch (d_client d) (Name (d_Deployment d)) StrategicMergePatchType data JujuFieldManager (server w))),
       calls = calls w @
               PatchCall (Name (d_Deployment d)) StrategicMergePatchType data JujuFieldManager #
               (if k8serrors_IsNotFound (err_of (fst (client_Patch (d_client d) (Name (d_Deployment d)) StrategicMergePatchType data JujuFieldManager (server w))))
                then [CreateCall (d_Deployment d) JujuFieldManager] else [])\<rparr>)"
proof (cases "client_Patch (d_client d) (Name (d_Deployment d)) StrategicMergePatchType data JujuFieldManager (server w)")
  case (Pair p s1)
  show ?thesis
  proof (cases "client_Create (d_client d) (d_Deployment d) JujuFieldManager s1")
    case (Pair c s2)
    show ?thesis
      using assms \<open>client_Patch (d_client d) (Name (d_Deployment d)) StrategicMergePatchType data JujuFieldManager (server w) = (p, s1)\<close> Pair
      by (cases p; cases c)
         (simp_all add: Deployment_Apply_def call_Patch_def call_Create_def)
  qed
qed

lemma Deployment_Apply_encode_error:
  "Encode (d_Deployment d) = Inl err \<Longrightarrow> Deployment_Apply Encode d w = (Some (Trace err), d, w)"
  by (simp add: Deployment_Apply_def)

lemma Deployment_Apply_patch_or_create:
  "(Encode (d_Deployment d) = Inr data \<longrightarrow>
      (let patch = client_Patch (d_client d) (Name (d_Deployment d)) StrategicMergePatchType data
                     JujuFieldManager (server w);
           create = client_Create (d_client d) (d_Deployment d) JujuFieldManager (snd patch);
           answer = (if k8serrors_IsNotFound (err_of (fst patch)) then fst create else fst patch);
           out = Deployment_Apply Encode d w
       in calls (snd (snd out))
            = calls w @
              PatchCall (Name (d_Deployment d)) StrategicMergePatchType data JujuFieldManager #
              (if k8serrors_IsNotFound (err_of (fst patch))
               then [CreateCall (d_Deployment d) JujuFieldManager] else [])
          \<and> (\<forall>obj. answer = Inr obj \<longrightarrow>
                 fst out = None \<and> fst (snd out) = d\<lparr>d_Deployment := obj\<rparr>)
          \<and> (fst out = None \<longrightarrow>
                 answer = Inr (d_Deployment (fst (snd out))) \<and> d_client (fst (snd out)) = d_client d)))"
proof (intro impI)
  assume enc: "Encode (d_Deployment d) = Inr data"
  note eq = Deployment_Apply_eq [of Encode d data w, OF enc]
  show "(let patch = client_Patch (d_client d) (Name (d_Deployment d)) StrategicMergePatchType data
                      JujuFieldManager (server w);
            create = client_Create (d_client d) (d_Deployment d) JujuFieldManager (snd patch);
            answer = (if k8serrors_IsNotFound (err_of (fst patch)) then fst create else fst patch);
            out = Deployment_Apply Encode d w
        in calls (snd (snd out))
             = calls w @
               PatchCall (Name (d_Deployment d)) StrategicMergePatchType data JujuFieldManager #
               (if k8serrors_IsNotFound (err_of (fst patch))
                then [CreateCall (d_Deployment d) JujuFieldManager] else [])
           \<and> (\<forall>obj. answer = Inr obj \<longrightarrow>
                  fst out = None \<and> fst (snd out) = d\<lparr>d_Deployment := obj\<rparr>)
           \<and> (fst out = None \<longrightarrow>
                  answer = Inr (d_Deployment (fst (snd out))) \<and> d_client (fst (snd out)) = d_client d))"
    unfolding Let_def eq
    by (simp split: sum.split if_split)
qed

lemma DaemonSet_Apply_eq:
  assumes "Encode (ds_DaemonSet ds) = Inr data"
  shows "DaemonSet_Apply Encode ds w' =
     ((if k8serrors_IsConflict (err_of (if k8serrors_IsNotFound (err_of (fst (client_Patch (ds_client ds) (Name (ds_DaemonSet ds)) StrategicMergePatchType data JujuFieldManager (server w'))))
 then fst (client_Create (ds_client ds) (ds_DaemonSet ds) JujuFieldManager
  (snd (client_Patch (ds_client ds) (Name (ds_DaemonSet ds)) StrategicMergePatchType data JujuFieldManager (server w'))))
 else fst (client_Patch (ds_client ds) (Name (ds_DaemonSet ds)) StrategicMergePatchType data JujuFieldManager (server w'))))
       then Some (Annotatef errConflict ''daemon set %q'' [Name (ds_DaemonSet ds)])
       else (case (if k8serrors_IsNotFound (err_of (fst (client_Patch (ds_client ds) (Name (ds_DaemonSet ds)) StrategicMergePatchType data JujuFieldManager (server w'))))
 then fst (client_Create (ds_client ds) (ds_DaemonSet ds) JujuFieldManager
  (snd (client_Patch (ds_client ds) (Name (ds_DaemonSet ds)) StrategicMergePatchType data JujuFieldManager (server w'))))
 else fst (client_Patch (ds_client ds) (Name (ds_DaemonSet ds)) StrategicMergePatchType data JujuFieldManager (server w'))) of Inl e \<Rightarrow> Some (Trace (K8s e)) | Inr obj \<Rightarrow> None)),
      (case (if k8serrors_IsNotFound (err_of (fst (client_Patch (ds_client ds) (Name (ds_DaemonSet ds)) StrategicMergePatchType data JujuFieldManager (server w'))))
 then fst (client_Create (ds_client ds) (ds_DaemonSet ds) JujuFieldManager
  (snd (client_Patch (ds_client ds) (Name (ds_DaemonSet ds)) StrategicMergePatchType data JujuFieldManager (server w'))))
 else fst (client_Patch (ds_client ds) (Name (ds_DaemonSet ds)) StrategicMergePatchType data JujuFieldManager (server w'))) of Inl e \<Rightarrow> ds | Inr obj \<Rightarrow> ds\<lparr>ds_DaemonSet := obj\<rparr>),
      \<lparr>server = (if k8serrors_IsNotFound (err_of (fst (client_Patch (ds_client ds) (Name (ds_DaemonSet ds)) StrategicMergePatchType data JujuFieldManager (server w'))))
                 then snd (client_Create (ds_client ds) (ds_DaemonSet ds) JujuFieldManager
  (snd (client_Patch (ds_client ds) (Name (ds_DaemonSet ds)) StrategicMergePatchType data JujuFieldManager (server w'))))
                 else snd (client_Patch (ds_client ds) (Name (ds_DaemonSet ds)) StrategicMergePatchType data JujuFieldManager (server w'))),
       calls = calls w' @
               PatchCall (Name (ds_DaemonSet ds)) StrategicMergePatchType data JujuFieldManager #
               (if k8serrors_IsNotFound (err_of (fst (client_Patch (ds_client ds) (Name (ds_DaemonSet ds)) StrategicMergePatchType data JujuFieldManager (server w'))))
                then [CreateCall (ds_DaemonSet ds) JujuFieldManager] else [])\<rparr>)"
proof (cases "client_Patch (ds_client ds) (Name (ds_DaemonSet ds)) StrategicMergePatchType data JujuFieldManager (server w')")
  case (Pair p s1)
  show ?thesis
  proof (cases "client_Create (ds_client ds) (ds_DaemonSet ds) JujuFieldManager s1")
    case (Pair c s2)
    show ?thesis
      using assms \<open>client_Patch (ds_client ds) (Name (ds_DaemonSet ds)) StrategicMergePatchType data JujuFieldManager (server w') = (p, s1)\<close> Pair
      by (cases p; cases c)
         (simp_all add: DaemonSet_Apply_def call_Patch_def call_Create_def)
  qed
qed

lemma DaemonSet_Apply_encode_error:
  "Encode (ds_DaemonSet ds) = Inl err \<Longrightarrow> DaemonSet_Apply Encode ds w' = (Some (Trace err), ds, w')"
  by (simp add: DaemonSet_Apply_def)

lemma DaemonSet_Apply_patch_or_create:
  "(Encode' (ds_DaemonSet ds) = Inr data' \<longrightarrow>
      (let patch = client_Patch (ds_client ds) (Name (ds_DaemonSet ds)) StrategicMergePatchType data'
                     JujuFieldManager (server w');
           create = client_Create (ds_client ds) (ds_DaemonSet ds) JujuFieldManager (snd patch);
           answer = (if k8serrors_IsNotFound (err_of (fst patch)) then fst create else fst patch);
           out = DaemonSet_Apply Encode' ds w'
       in calls (snd (snd out))
            = calls w' @
              PatchCall (Name (ds_DaemonSet ds)) StrategicMergePatchType data' JujuFieldManager #
              (if k8serrors_IsNotFound (err_of (fst patch))
               then [CreateCall (ds_DaemonSet ds) JujuFieldManager] else [])
          \<and> (\<forall>obj. answer = Inr obj \<longrightarrow>
                 fst out = None \<and> fst (snd out) = ds\<lparr>ds_DaemonSet := obj\<rparr>)
          \<and> (fst out = None \<longrightarrow>
                 answer = Inr (ds_DaemonSet (fst (snd out))) \<and> ds_client (fst (snd out)) = ds_client ds)))"
proof (intro impI)
  assume enc: "Encode' (ds_DaemonSet ds) = Inr data'"
  note eq = DaemonSet_Apply_eq [of Encode' ds data' w', OF enc]
  show "(let patch = client_Patch (ds_client ds) (Name (ds_DaemonSet ds)) StrategicMergePatchType data'
                      JujuFieldManager (server w');
            create = client_Create (ds_client ds) (ds_DaemonSet ds) JujuFieldManager (snd patch);
            answer = (if k8serrors_IsNotFound (err_of (fst patch)) then fst create else fst patch);
            out = DaemonSet_Apply Encode' ds w'
        in calls (snd (snd out))
             = calls w' @
               PatchCall (Name (ds_DaemonSet ds)) StrategicMergePatchType data' JujuFieldManager #
               (if k8serrors_IsNotFound (err_of (fst patch))
                then [CreateCall (ds_DaemonSet ds) JujuFieldManager] else [])
           \<and> (\<forall>obj. answer = Inr obj \<longrightarrow>
                  fst out = None \<and> fst (snd out) = ds\<lparr>ds_DaemonSet := obj\<rparr>)
           \<and> (fst out = None \<longrightarrow>
                  answer = Inr (ds_DaemonSet (fst (snd out))) \<and> ds_client (fst (snd out)) = ds_client ds))"
    unfolding Let_def eq
    by (simp split: sum.split if_split)
qed

lemma ClusterRole_Apply_eq:
  assumes "Encode (r_ClusterRole r) = Inr data"
  shows "ClusterRole_Apply Encode r w'' =
     ((if k8serrors_IsConflict (err_of (if k8serrors_IsNotFound (err_of (fst (client_Patch (r_client r) (Name (r_ClusterRole r)) StrategicMergePatchType data JujuFieldManager (server w''))))
 then fst (client_Create (r_client r) (r_ClusterRole r) JujuFieldManager
  (snd (client_Patch (r_client r) (Name (r_ClusterRole r)) StrategicMergePatchType data JujuFieldManager (server w''))))
 else fst (client_Patch (r_client r) (Name (r_ClusterRole r)) StrategicMergePatchType data JujuFieldManager (server w''))))
       then Some (Annotatef errConflict ''cluster role %q'' [Name (r_ClusterRole r)])
       else (case (if k8serrors_IsNotFound (err_of (fst (client_Patch (r_client r) (Name (r_ClusterRole r)) StrategicMergePatchType data JujuFieldManager (server w''))))
 then fst (client_Create (r_client r) (r_ClusterRole r) JujuFieldManager
  (snd (client_Patch (r_client r) (Name (r_ClusterRole r)) StrategicMergePatchType data JujuFieldManager (server w''))))
 else fst (client_Patch (r_client r) (Name (r_ClusterRole r)) StrategicMergePatchType data JujuFieldManager (server w''))) of Inl e \<Rightarrow> Some (Trace (K8s e)) | Inr obj \<Rightarrow> None)),
      (case (if k8serrors_IsNotFound (err_of (fst (client_Patch (r_client r) (Name (r_ClusterRole r)) StrategicMergePatchType data JujuFieldManager (server w''))))
 then fst (client_Create (r_client r) (r_ClusterRole r) JujuFieldManager
  (snd (client_Patch (r_client r) (Name (r_ClusterRole r)) StrategicMergePatchType data JujuFieldManager (server w''))))
 else fst (client_Patch (r_client r) (Name (r_ClusterRole r)) StrategicMergePatchType data JujuFieldManager (server w''))) of Inl e \<Rightarrow> r | Inr obj \<Rightarrow> r\<lparr>r_ClusterRole := obj\<rparr>),
      \<lparr>server = (if k8serrors_IsNotFound (err_of (fst (client_Patch (r_client r) (Name (r_ClusterRole r)) StrategicMergePatchType data JujuFieldManager (server w''))))
                 then snd (client_Create (r_client r) (r_ClusterRole r) JujuFieldManager
  (snd (client_Patch (r_client r) (Name (r_ClusterRole r)) StrategicMergePatchType data JujuFieldManager (server w''))))
                 else snd (client_Patch (r_client r) (Name (r_ClusterRole r)) StrategicMergePatchType data JujuFieldManager (server w''))),
       calls = calls w'' @
               PatchCall (Name (r_ClusterRole r)) StrategicMergePatchType data JujuFieldManager #
               (if k8serrors_IsNotFound (err_of (fst (client_Patch (r_client r) (Name (r_ClusterRole r)) StrategicMergePatchType data JujuFieldManager (server w''))))
                then [CreateCall (r_ClusterRole r) JujuFieldManager] else [])\<rparr>)"
proof (cases "client_Patch (r_client r) (Name (r_ClusterRole r)) StrategicMergePatchType data JujuFieldManager (server w'')")
  case (Pair p s1)
  show ?thesis
  proof (cases "client_Create (r_client r) (r_ClusterRole r) JujuFieldManager s1")
    case (Pair c s2)
    show ?thesis
      using assms \<open>client_Patch (r_client r) (Name (r_ClusterRole r)) StrategicMergePatchType data JujuFieldManager (server w'') = (p, s1)\<close> Pair
      by (cases p; cases c)
         (simp_all add: ClusterRole_Apply_def call_Patch_def call_Create_def)
  qed
qed

lemma ClusterRole_Apply_encode_error:
  "Encode (r_ClusterRole r) = Inl err \<Longrightarrow> ClusterRole_Apply Encode r w'' = (Some (Trace err), r, w'')"
  by (simp add: ClusterRole_Apply_def)

lemma ClusterRole_Apply_patch_or_create:
  "(Encode'' (r_ClusterRole r) = Inr data'' \<longrightarrow>
      (let patch = client_Patch (r_client r) (Name (r_ClusterRole r)) StrategicMergePatchType data''
                     JujuFieldManager (server w'');
           create = client_Create (r_client r) (r_ClusterRole r) JujuFieldManager (snd patch);
           answer = (if k8serrors_IsNotFound (err_of (fst patch)) then fst create else fst patch);
           out = ClusterRole_Apply Encode'' r w''
       in calls (snd (snd out))
            = calls w'' @
              PatchCall (Name (r_ClusterRole r)) StrategicMergePatchType data'' JujuFieldManager #
              (if k8serrors_IsNotFound (err_of (fst patch))
               then [CreateCall (r_ClusterRole r) JujuFieldManager] else [])
          \<and> (\<forall>obj. answer = Inr obj \<longrightarrow>
                 fst out = None \<and> fst (snd out) = r\<lparr>r_ClusterRole := obj\<rparr>)
          \<and> (fst out = None \<longrightarrow>
                 answer = Inr (r_ClusterRole (fst (snd out))) \<and> r_client (fst (snd out)) = r_client r)))"
proof (intro impI)
  assume enc: "Encode'' (r_ClusterRole r) = Inr data''"
  note eq = ClusterRole_Apply_eq [of Encode'' r data'' w'', OF enc]
  show "(let patch = client_Patch (r_client r) (Name (r_ClusterRole r)) StrategicMergePatchType data''
                      JujuFieldManager (server w'');
            create = client_Create (r_client r) (r_ClusterRole r) JujuFieldManager (snd patch);
            answer = (if k8serrors_IsNotFound (err_of (fst patch)) then fst create else fst patch);
            out = ClusterRole_Apply Encode'' r w''
        in calls (snd (snd out))
             = calls w'' @
               PatchCall (Name (r_ClusterRole r)) StrategicMergePatchType data'' JujuFieldManager #
               (if k8serrors_IsNotFound (err_of (fst patch))
                then [CreateCall (r_ClusterRole r) JujuFieldManager] else [])
           \<and> (\<forall>obj. answer = Inr obj \<longrightarrow>
                  fst out = None \<and> fst (snd out) = r\<lparr>r_ClusterRole := obj\<rparr>)
           \<and> (fst out = None \<longrightarrow>
                  answer = Inr (r_ClusterRole (fst (snd out))) \<and> r_client (fst (snd out)) = r_client r))"
    unfolding Let_def eq
    by (simp split: sum.split if_split)
qed

text \<open>
  Claim C1. For each kind, once the body is encoded, \<open>Apply\<close> issues a strategic-merge
  patch addressed by the resource's name; it issues one create call after it exactly when
  the patch answers not-found, and no other call; and it succeeds exactly when the last
  response (of the create if there was one, of the patch otherwise) carries an object,
  which then becomes the local body, the client handle staying the same.
\<close>

theorem Apply_patch_then_create:
  "((Encode (d_Deployment d) = Inr data \<longrightarrow>
       (let patch = client_Patch (d_client d) (Name (d_Deployment d)) StrategicMergePatchType data
                      JujuFieldManager (server w);
            create = client_Create (d_client d) (d_Deployment d) JujuFieldManager (snd patch);
            answer = (if k8serrors_IsNotFound (err_of (fst patch)) then fst create else fst patch);
            out = Deployment_Apply Encode d w
        in calls (snd (snd out))
             = calls w @
               PatchCall (Name (d_Deployment d)) StrategicMergePatchType data JujuFieldManager #
               (if k8serrors_IsNotFound (err_of (fst patch))
                then [CreateCall (d_Deployment d) JujuFieldManager] else [])
           \<and> (\<forall>obj. answer = Inr obj \<longrightarrow>
                  fst out = None \<and> fst (snd out) = d\<lparr>d_Deployment := obj\<rparr>)
           \<and> (fst out = None \<longrightarrow>
                  answer = Inr (d_Deployment (fst (snd out))) \<and> d_client (fst (snd out)) = d_client d))))
   \<and> ((Encode' (ds_DaemonSet ds) = Inr data' \<longrightarrow>
       (let patch = client_Patch (ds_client ds) (Name (ds_DaemonSet ds)) StrategicMergePatchType data'
                      JujuFieldManager (server w');
            create = client_Create (ds_client ds) (ds_DaemonSet ds) JujuFieldManager (snd patch);
            answer = (if k8serrors_IsNotFound (err_of (fst patch)) then fst create else fst patch);
            out = DaemonSet_Apply Encode' ds w'
        in calls (snd (snd out))
             = calls w' @
               PatchCall (Name (ds_DaemonSet ds)) StrategicMergePatchType data' JujuFieldManager #
               (if k8serrors_IsNotFound (err_of (fst patch))
                then [CreateCall (ds_DaemonSet ds) JujuFieldManager] else [])
           \<and> (\<forall>obj. answer = Inr obj \<longrightarrow>
                  fst out = None \<and> fst (snd out) = ds\<lparr>ds_DaemonSet := obj\<rparr>)
           \<and> (fst out = None \<longrightarrow>
                  answer = Inr (ds_DaemonSet (fst (snd out))) \<and> ds_client (fst (snd out)) = ds_client ds))))
   \<and> ((Encode'' (r_ClusterRole r) = Inr data'' \<longrightarrow>
       (let patch = client_Patch (r_client r) (Name (r_ClusterRole r)) StrategicMergePatchType data''
                      JujuFieldManager (server w'');
            create = client_Create (r_client r) (r_ClusterRole r) JujuFieldManager (snd patch);
            answer = (if k8serrors_IsNotFound (err_of (fst patch)) then fst create else fst patch);
            out = ClusterRole_Apply Encode'' r w''
        in calls (snd (snd out))
             = calls w'' @
               PatchCall (Name (r_ClusterRole r)) StrategicMergePatchType data'' JujuFieldManager #
               (if k8serrors_IsNotFound (err_of (fst patch))
                then [CreateCall (r_ClusterRole r) JujuFieldManager] else [])
           \<and> (\<forall>obj. answer = Inr obj \<longrightarrow>
                  fst out = None \<and> fst (snd out) = r\<lparr>r_ClusterRole := obj\<rparr>)
           \<and> (fst out = None \<longrightarrow>
                  answer = Inr (r_ClusterRole (fst (snd out))) \<and> r_client (fst (snd out)) = r_client r))))"
  by (rule conjI, rule Deployment_Apply_patch_or_create,
      rule conjI, rule DaemonSet_Apply_patch_or_create, rule ClusterRole_Apply_patch_or_create)

theorem Apply_patch_then_create_witness:
  "calls (snd (snd (Deployment_Apply json
        \<lparr>d_client = fixed_client (Inl not_found) (Inr (web\<lparr>Labels := None\<rparr>)) (Inl conflict)
                       (Inl not_found) None no_pages,
         d_Deployment = web\<rparr> world0)))
     = [PatchCall ''web'' StrategicMergePatchType ''{}'' JujuFieldManager,
        CreateCall web JujuFieldManager]
   \<and> fst (Deployment_Apply json
        \<lparr>d_client = fixed_client (Inl not_found) (Inr (web\<lparr>Labels := None\<rparr>)) (Inl conflict)
                       (Inl not_found) None no_pages,
         d_Deployment = web\<rparr> world0) = None
   \<and> d_Deployment (fst (snd (Deployment_Apply json
        \<lparr>d_client = fixed_client (Inl not_found) (Inr (web\<lparr>Labels := None\<rparr>)) (Inl conflict)
                       (Inl not_found) None no_pages,
         d_Deployment = web\<rparr> world0))) = web\<lparr>Labels := None\<rparr>
   \<and> calls (snd (snd (DaemonSet_Apply json
        \<lparr>ds_client = fixed_client (Inr agent) (Inl conflict) (Inl conflict) (Inr agent) None
                        no_pages,
         ds_DaemonSet = agent\<rparr> world0)))
     = [PatchCall ''agent'' StrategicMergePatchType ''{}'' JujuFieldManager]
   \<and> calls (snd (snd (ClusterRole_Apply json
        \<lparr>r_client = fixed_client (Inl unavailable) (Inr admin) (Inl conflict) (Inr admin) None
                       no_pages,
         r_ClusterRole = admin\<rparr> world0)))
     = [PatchCall ''admin'' StrategicMergePatchType ''{}'' JujuFieldManager]"
  using Apply_patch_then_create
          [of json
              "\<lparr>d_client = fixed_client (Inl not_found) (Inr (web\<lparr>Labels := None\<rparr>))
                             (Inl conflict) (Inl not_found) None no_pages,
                d_Deployment = web\<rparr>"
              "''{}''" world0
              json
              "\<lparr>ds_client = fixed_client (Inr agent) (Inl conflict) (Inl conflict) (Inr agent)
                              None no_pages,
                ds_DaemonSet = agent\<rparr>"
              "''{}''" world0
              json
              "\<lparr>r_client = fixed_client (Inl unavailable) (Inr admin) (Inl conflict) (Inr admin)
                             None no_pages,
                r_ClusterRole = admin\<rparr>"
              "''{}''" world0]
  by (simp add: json_def fixed_client_def world0_def not_found_def unavailable_def
        web_def agent_def admin_def Let_def)

section \<open>Conflicts and the local body\<close>

lemma ClusterRole_Update_Inl:
  "fst (client_Update (r_client r) (r_ClusterRole r) JujuFieldManager (server w)) = Inl e \<Longrightarrow>
   ClusterRole_Update r w =
     (Some (if k8serrors_IsNotFound (Some e)
            then NewNotFound (Some (K8s e)) ''updating cluster role'' else Trace (K8s e)),
      r,
      \<lparr>server = snd (client_Update (r_client r) (r_ClusterRole r) JujuFieldManager (server w)),
       calls = calls w @ [UpdateCall (r_ClusterRole r) JujuFieldManager]\<rparr>)"
  by (cases "client_Update (r_client r) (r_ClusterRole r) JujuFieldManager (server w)")
     (simp add: ClusterRole_Update_def call_Update_def)

lemma ClusterRole_Update_Inr:
  "fst (client_Update (r_client r) (r_ClusterRole r) JujuFieldManager (server w)) = Inr obj \<Longrightarrow>
   ClusterRole_Update r w =
     (None, r\<lparr>r_ClusterRole := obj\<rparr>,
      \<lparr>server = snd (client_Update (r_client r) (r_ClusterRole r) JujuFieldManager (server w)),
       calls = calls w @ [UpdateCall (r_ClusterRole r) JujuFieldManager]\<rparr>)"
  by (cases "client_Update (r_client r) (r_ClusterRole r) JujuFieldManager (server w)")
     (simp add: ClusterRole_Update_def call_Update_def)

lemma Apply_error_keeps_receiver:
  "(if k8serrors_IsConflict (err_of resp) then Some a
    else (case resp of Inl e \<Rightarrow> Some (Trace (K8s e)) | Inr obj \<Rightarrow> None)) \<noteq> None \<Longrightarrow>
   (case resp of Inl e \<Rightarrow> v | Inr obj \<Rightarrow> f obj) = v"
  by (cases resp) simp_all

lemma k8s_conflict_is_not_not_found:
  "k8serrors_IsConflict (Some e) \<Longrightarrow> \<not> k8serrors_IsNotFound (Some e)"
  by (cases e) auto

lemma ClusterRole_Update_conflict:
  "(\<forall>e. fst (client_Update (r_client r) (r_ClusterRole r) JujuFieldManager (server w'')) = Inl e
           \<and> k8serrors_IsConflict (Some e) \<longrightarrow>
         fst (ClusterRole_Update r w'') = Some (Trace (K8s e)))
   \<and> (fst (ClusterRole_Update r w'') \<noteq> None \<longrightarrow> fst (snd (ClusterRole_Update r w'')) = r)"
proof (intro conjI allI impI)
  show "fst (snd (ClusterRole_Update r w'')) = r" if "fst (ClusterRole_Update r w'') \<noteq> None"
    using that
    by (cases "fst (client_Update (r_client r) (r_ClusterRole r) JujuFieldManager (server w''))")
       (simp_all add: ClusterRole_Update_Inl ClusterRole_Update_Inr)
qed (simp add: ClusterRole_Update_Inl k8s_conflict_is_not_not_found)

lemma Deployment_Apply_conflict:
  "(Encode (d_Deployment d) = Inr data \<longrightarrow>
      (let patch = client_Patch (d_client d) (Name (d_Deployment d)) StrategicMergePatchType data
                     JujuFieldManager (server w);
           create = client_Create (d_client d) (d_Deployment d) JujuFieldManager (snd patch);
           answer = (if k8serrors_IsNotFound (err_of (fst patch)) then fst create else fst patch)
       in \<forall>e. answer = Inl e \<and> k8serrors_IsConflict (Some e) \<longrightarrow>
            fst (Deployment_Apply Encode d w)
              = Some (Annotatef errConflict ''deployment %q'' [Name (d_Deployment d)])))
   \<and> (fst (Deployment_Apply Encode d w) \<noteq> None \<longrightarrow> fst (snd (Deployment_Apply Encode d w)) = d)"
proof (intro conjI impI)
  assume enc: "Encode (d_Deployment d) = Inr data"
  note eq = Deployment_Apply_eq [of Encode d data w, OF enc]
  show "(let patch = client_Patch (d_client d) (Name (d_Deployment d)) StrategicMergePatchType data
                      JujuFieldManager (server w);
            create = client_Create (d_client d) (d_Deployment d) JujuFieldManager (snd patch);
            answer = (if k8serrors_IsNotFound (err_of (fst patch)) then fst create else fst patch)
        in \<forall>e. answer = Inl e \<and> k8serrors_IsConflict (Some e) \<longrightarrow>
             fst (Deployment_Apply Encode d w)
               = Some (Annotatef errConflict ''deployment %q'' [Name (d_Deployment d)]))"
    unfolding Let_def eq by simp
next
  assume err: "fst (Deployment_Apply Encode d w) \<noteq> None"
  show "fst (snd (Deployment_Apply Encode d w)) = d"
  proof (cases "Encode (d_Deployment d)")
    case (Inl e)
    then show ?thesis by (simp add: Deployment_Apply_encode_error)
  next
    case (Inr bytes)
    note eq = Deployment_Apply_eq [of Encode d bytes w, OF Inr]
    show ?thesis
      using err unfolding eq fst_conv snd_conv by (rule Apply_error_keeps_receiver)
  qed
qed

lemma DaemonSet_Apply_conflict:
  "(Encode' (ds_DaemonSet ds) = Inr data' \<longrightarrow>
      (let patch = client_Patch (ds_client ds) (Name (ds_DaemonSet ds)) StrategicMergePatchType data'
                     JujuFieldManager (server w');
           create = client_Create (ds_client ds) (ds_DaemonSet ds) JujuFieldManager (snd patch);
           answer = (if k8serrors_IsNotFound (err_of (fst patch)) then fst create else fst patch)
       in \<forall>e. answer = Inl e \<and> k8serrors_IsConflict (Some e) \<longrightarrow>
            fst (DaemonSet_Apply Encode' ds w')
              = Some (Annotatef errConflict ''daemon set %q'' [Name (ds_DaemonSet ds)])))
   \<and> (fst (DaemonSet_Apply Encode' ds w') \<noteq> None \<longrightarrow> fst (snd (DaemonSet_Apply Encode' ds w')) = ds)"
proof (intro conjI impI)
  assume enc: "Encode' (ds_DaemonSet ds) = Inr data'"
  note eq = DaemonSet_Apply_eq [of Encode' ds data' w', OF enc]
  show "(let patch = client_Patch (ds_client ds) (Name (ds_DaemonSet ds)) StrategicMergePatchType data'
                      JujuFieldManager (server w');
            create = client_Create (ds_client ds) (ds_DaemonSet ds) JujuFieldManager (snd patch);
            answer = (if k8serrors_IsNotFound (err_of (fst patch)) then fst create else fst patch)
        in \<forall>e. answer = Inl e \<and> k8serrors_IsConflict (Some e) \<longrightarrow>
             fst (DaemonSet_Apply Encode' ds w')
               = Some (Annotatef errConflict ''daemon set %q'' [Name (ds_DaemonSet ds)]))"
    unfolding Let_def eq by simp
next
  assume err: "fst (DaemonSet_Apply Encode' ds w') \<noteq> None"
  show "fst (snd (DaemonSet_Apply Encode' ds w')) = ds"
  proof (cases "Encode' (ds_DaemonSet ds)")
    case (Inl e)
    then show ?thesis by (simp add: DaemonSet_Apply_encode_error)
  next
    case (Inr bytes)
    note eq = DaemonSet_Apply_eq [of Encode' ds bytes w', OF Inr]
    show ?thesis
      using err unfolding eq fst_conv snd_conv by (rule Apply_error_keeps_receiver)
  qed
qed

lemma ClusterRole_Apply_conflict:
  "(Encode'' (r_ClusterRole r) = Inr data'' \<longrightarrow>
      (let patch = client_Patch (r_client r) (Name (r_ClusterRole r)) StrategicMergePatchType data''
                     JujuFieldManager (server w'');
           create = client_Create (r_client r) (r_ClusterRole r) JujuFieldManager (snd patch);
           answer = (if k8serrors_IsNotFound (err_of (fst patch)) then fst create else fst patch)
       in \<forall>e. answer = Inl e \<and> k8serrors_IsConflict (Some e) \<longrightarrow>
            fst (ClusterRole_Apply Encode'' r w'')
              = Some (Annotatef errConflict ''cluster role %q'' [Name (r_ClusterRole r)])))
   \<and> (fst (ClusterRole_Apply Encode'' r w'') \<noteq> None \<longrightarrow> fst (snd (ClusterRole_Apply Encode'' r w'')) = r)"
proof (intro conjI impI)
  assume enc: "Encode'' (r_ClusterRole r) = Inr data''"
  note eq = ClusterRole_Apply_eq [of Encode'' r data'' w'', OF enc]
  show "(let patch = client_Patch (r_client r) (Name (r_ClusterRole r)) StrategicMergePatchType data''
                      JujuFieldManager (server w'');
            create = client_Create (r_client r) (r_ClusterRole r) JujuFieldManager (snd patch);
            answer = (if k8serrors_IsNotFound (err_of (fst patch)) then fst create else fst patch)
        in \<forall>e. answer = Inl e \<and> k8serrors_IsConflict (Some e) \<longrightarrow>
             fst (ClusterRole_Apply Encode'' r w'')
               = Some (Annotatef errConflict ''cluster role %q'' [Name (r_ClusterRole r)]))"
    unfolding Let_def eq by simp
next
  assume err: "fst (ClusterRole_Apply Encode'' r w'') \<noteq> None"
  show "fst (snd (ClusterRole_Apply Encode'' r w'')) = r"
  proof (cases "Encode'' (r_ClusterRole r)")
    case (Inl e)
    then show ?thesis by (simp add: ClusterRole_Apply_encode_error)
  next
    case (Inr bytes)
    note eq = ClusterRole_Apply_eq [of Encode'' r bytes w'', OF Inr]
    show ?thesis
      using err unfolding eq fst_conv snd_conv by (rule Apply_error_keeps_receiver)
  qed
qed

text \<open>
  Claim C2, as the code has it. \<open>Apply\<close> of each kind answers a conflict response (of its
  patch, or of its create after a not-found patch) with \<open>errConflict\<close> annotated with the
  kind's label and the resource's name. \<open>ClusterRole.Update\<close> has no conflict case: it
  returns the server's conflict error traced, like any other error. On every error path
  of \<open>Apply\<close> and of \<open>Update\<close> the resource is left as it was.
\<close>

theorem conflict_and_error_paths:
  "((Encode (d_Deployment d) = Inr data \<longrightarrow>
       (let patch = client_Patch (d_client d) (Name (d_Deployment d)) StrategicMergePatchType data
                      JujuFieldManager (server w);
            create = client_Create (d_client d) (d_Deployment d) JujuFieldManager (snd patch);
            answer = (if k8serrors_IsNotFound (err_of (fst patch)) then fst create else fst patch)
        in \<forall>e. answer = Inl e \<and> k8serrors_IsConflict (Some e) \<longrightarrow>
             fst (Deployment_Apply Encode d w)
               = Some (Annotatef errConflict ''deployment %q'' [Name (d_Deployment d)])))
    \<and> (fst (Deployment_Apply Encode d w) \<noteq> None \<longrightarrow> fst (snd (Deployment_Apply Encode d w)) = d))
   \<and> ((Encode' (ds_DaemonSet ds) = Inr data' \<longrightarrow>
       (let patch = client_Patch (ds_client ds) (Name (ds_DaemonSet ds)) StrategicMergePatchType data'
                      JujuFieldManager (server w');
            create = client_Create (ds_client ds) (ds_DaemonSet ds) JujuFieldManager (snd patch);
            answer = (if k8serrors_IsNotFound (err_of (fst patch)) then fst create else fst patch)
        in \<forall>e. answer = Inl e \<and> k8serrors_IsConflict (Some e) \<longrightarrow>
             fst (DaemonSet_Apply Encode' ds w')
               = Some (Annotatef errConflict ''daemon set %q'' [Name (ds_DaemonSet ds)])))
    \<and> (fst (DaemonSet_Apply Encode' ds w') \<noteq> None \<longrightarrow> fst (snd (DaemonSet_Apply Encode' ds w')) = ds))
   \<and> ((Encode'' (r_ClusterRole r) = Inr data'' \<longrightarrow>
       (let patch = client_Patch (r_client r) (Name (r_ClusterRole r)) StrategicMergePatchType data''
                      JujuFieldManager (server w'');
            create = client_Create (r_client r) (r_ClusterRole r) JujuFieldManager (snd patch);
            answer = (if k8serrors_IsNotFound (err_of (fst patch)) then fst create else fst patch)
        in \<forall>e. answer = Inl e \<and> k8serrors_IsConflict (Some e) \<longrightarrow>
             fst (ClusterRole_Apply Encode'' r w'')
               = Some (Annotatef errConflict ''cluster role %q'' [Name (r_ClusterRole r)])))
    \<and> (fst (ClusterRole_Apply Encode'' r w'') \<noteq> None \<longrightarrow> fst (snd (ClusterRole_Apply Encode'' r w'')) = r))
   \<and> ((\<forall>e. fst (client_Update (r_client r) (r_ClusterRole r) JujuFieldManager (server w'')) = Inl e
            \<and> k8serrors_IsConflict (Some e) \<longrightarrow>
          fst (ClusterRole_Update r w'') = Some (Trace (K8s e)))
    \<and> (fst (ClusterRole_Update r w'') \<noteq> None \<longrightarrow> fst (snd (ClusterRole_Update r w'')) = r))"
  by (rule conjI, rule Deployment_Apply_conflict,
      rule conjI, rule DaemonSet_Apply_conflict,
      rule conjI, rule ClusterRole_Apply_conflict, rule ClusterRole_Update_conflict)

theorem conflict_and_error_paths_witness:
  "Deployment_Apply json \<lparr>d_client = conflict_client, d_Deployment = web\<rparr> world0
     = (Some (Annotatef errConflict ''deployment %q'' [''web'']),
        \<lparr>d_client = conflict_client, d_Deployment = web\<rparr>,
        snd (snd (Deployment_Apply json \<lparr>d_client = conflict_client, d_Deployment = web\<rparr> world0)))
   \<and> DaemonSet_Apply json \<lparr>ds_client = absent_client, ds_DaemonSet = agent\<rparr> world0
     = (Some (Annotatef errConflict ''daemon set %q'' [''agent'']),
        \<lparr>ds_client = absent_client, ds_DaemonSet = agent\<rparr>,
        snd (snd (DaemonSet_Apply json \<lparr>ds_client = absent_client, ds_DaemonSet = agent\<rparr> world0)))
   \<and> ClusterRole_Apply json \<lparr>r_client = conflict_client, r_ClusterRole = admin\<rparr> world0
     = (Some (Annotatef errConflict ''cluster role %q'' [''admin'']),
        \<lparr>r_client = conflict_client, r_ClusterRole = admin\<rparr>,
        snd (snd (ClusterRole_Apply json \<lparr>r_client = conflict_client, r_ClusterRole = admin\<rparr> world0)))
   \<and> ClusterRole_Update \<lparr>r_client = conflict_client, r_ClusterRole = admin\<rparr> world0
     = (Some (Trace (K8s conflict)),
        \<lparr>r_client = conflict_client, r_ClusterRole = admin\<rparr>,
        snd (snd (ClusterRole_Update \<lparr>r_client = conflict_client, r_ClusterRole = admin\<rparr> world0)))"
  using conflict_and_error_paths
          [of json "\<lparr>d_client = conflict_client, d_Deployment = web\<rparr>" "''{}''" world0
              json "\<lparr>ds_client = absent_client, ds_DaemonSet = agent\<rparr>" "''{}''" world0
              json "\<lparr>r_client = conflict_client, r_ClusterRole = admin\<rparr>" "''{}''" world0]
  by (simp add: json_def fixed_client_def conflict_client_def absent_client_def world0_def
        conflict_def not_found_def web_def agent_def admin_def Let_def prod_eq_iff)

text \<open>
  Claim C2 as written fails for \<open>Update\<close>: on a conflict response it returns the traced
  server error, not \<open>errConflict\<close> annotated with kind and name.
\<close>

theorem Update_conflict_counterexample:
  "fst (client_Update conflict_client admin JujuFieldManager (0::nat)) = Inl conflict
   \<and> k8serrors_IsConflict (Some conflict)
   \<and> fst (ClusterRole_Update \<lparr>r_client = conflict_client, r_ClusterRole = admin\<rparr> world0)
       = Some (Trace (K8s conflict))
   \<and> fst (ClusterRole_Update \<lparr>r_client = conflict_client, r_ClusterRole = admin\<rparr> world0)
       \<noteq> Some (Annotatef errConflict ''cluster role %q'' [''admin''])"
  by (simp add: ClusterRole_Update_def call_Update_def conflict_client_def fixed_client_def
        conflict_def world0_def)

section \<open>Ensure\<close>

lemma existing_is_receiver:
  "\<lparr>r_client = r_client r, r_ClusterRole = r_ClusterRole r\<rparr> = r"
  by simp

lemma ClusterRole_Ensure_not_claimed:
  assumes "fst (client_Get (r_client r) (Name (r_ClusterRole r)) (server w)) = Inr obj"
      and "RunClaims claims obj = (False, None)"
  shows "ClusterRole_Ensure RunClaims Encode r claims w =
     (([], Some (AlreadyExistsf ''cluster role %q not controlled by juju''
                   [Name (r_ClusterRole r)])),
      r,
      \<lparr>server = snd (client_Get (r_client r) (Name (r_ClusterRole r)) (server w)),
       calls = calls w @ [GetCall (Name (r_ClusterRole r))]\<rparr>)"
  using assms
  by (simp add: ClusterRole_Ensure_def existing_is_receiver ClusterRole_Get_Inr)

lemma ClusterRole_Ensure_absent:
  assumes "fst (client_Get (r_client r) (Name (r_ClusterRole r)) (server w)) = Inl e"
      and "k8serrors_IsNotFound (Some e)"
  shows "ClusterRole_Ensure RunClaims Encode r claims w =
     (let w1 = \<lparr>server = snd (client_Get (r_client r) (Name (r_ClusterRole r)) (server w)),
                calls = calls w @ [GetCall (Name (r_ClusterRole r))]\<rparr>;
          out = ClusterRole_Apply Encode r w1
      in (([Delete_receiver], fst out), snd out))"
  using assms
  by (simp add: ClusterRole_Ensure_def existing_is_receiver ClusterRole_Get_Inl
        Let_def split: prod.split)

lemma ClusterRole_Ensure_claimed:
  assumes "fst (client_Get (r_client r) (Name (r_ClusterRole r)) (server w)) = Inr obj"
      and "RunClaims claims obj = (True, None)"
  shows "ClusterRole_Ensure RunClaims Encode r claims w =
     (let w1 = \<lparr>server = snd (client_Get (r_client r) (Name (r_ClusterRole r)) (server w)),
                calls = calls w @ [GetCall (Name (r_ClusterRole r))]\<rparr>;
          out = ClusterRole_Update r w1
      in (([Delete_receiver], fst out), snd out))"
  using assms
  by (simp add: ClusterRole_Ensure_def existing_is_receiver ClusterRole_Get_Inr
        Let_def split: prod.split)

lemma ClusterRole_Update_calls:
  "calls (snd (snd (ClusterRole_Update r w)))
     = calls w @ [UpdateCall (r_ClusterRole r) JujuFieldManager]"
  by (cases "fst (client_Update (r_client r) (r_ClusterRole r) JujuFieldManager (server w))")
     (simp_all add: ClusterRole_Update_Inl ClusterRole_Update_Inr)

text \<open>
  Claim C3. When \<open>Get\<close> finds the ClusterRole and the claims are not satisfied (verdict
  false, no error), \<open>Ensure\<close> returns an \<open>AlreadyExists\<close> error that names the
  resource and an empty cleanup list, leaves the resource as it was, and has issued the
  get call and no other.
\<close>

theorem Ensure_claim_gate:
  "fst (client_Get (r_client r) (Name (r_ClusterRole r)) (server w)) = Inr obj
     \<and> RunClaims claims obj = (False, None) \<longrightarrow>
   ClusterRole_Ensure RunClaims Encode r claims w =
     (([], Some (AlreadyExistsf ''cluster role %q not controlled by juju''
                   [Name (r_ClusterRole r)])),
      r,
      \<lparr>server = snd (client_Get (r_client r) (Name (r_ClusterRole r)) (server w)),
       calls = calls w @ [GetCall (Name (r_ClusterRole r))]\<rparr>)"
  by (simp add: ClusterRole_Ensure_not_claimed)

theorem Ensure_claim_gate_witness:
  "fst (client_Get (found_client (admin\<lparr>Labels := Some 5\<rparr>)) ''admin'' (0::nat))
     = Inr (admin\<lparr>Labels := Some 5\<rparr>)
   \<and> first_claim [not_ours] (admin\<lparr>Labels := Some 5\<rparr>) = (False, None)
   \<and> ClusterRole_Ensure first_claim json
        \<lparr>r_client = found_client (admin\<lparr>Labels := Some 5\<rparr>), r_ClusterRole = admin\<rparr>
        [not_ours] world0
     = (([], Some (AlreadyExistsf ''cluster role %q not controlled by juju'' [''admin''])),
        \<lparr>r_client = found_client (admin\<lparr>Labels := Some 5\<rparr>), r_ClusterRole = admin\<rparr>,
        \<lparr>server = 1, calls = [GetCall ''admin'']\<rparr>)"
  using Ensure_claim_gate
          [of "\<lparr>r_client = found_client (admin\<lparr>Labels := Some 5\<rparr>), r_ClusterRole = admin\<rparr>"
              world0 "admin\<lparr>Labels := Some 5\<rparr>" first_claim "[not_ours]" json]
  by (simp add: found_client_def fixed_client_def first_claim_def not_ours_def world0_def
        admin_def)

text \<open>
  Claim C4. When \<open>Get\<close> answers not-found, \<open>Ensure\<close> does what \<open>Apply\<close> does after
  the get call; when \<open>Get\<close> finds the object and the claims pass, it does what
  \<open>Update\<close> does. \<open>Update\<close> issues its one update call and nothing else, and turns a
  not-found response into a \<open>NotFound\<close> error. In both branches the cleanup list
  returned is the one delete closure, whatever the mutating call returned, and running
  the closure is \<open>Delete\<close> on the receiver with the error dropped.
\<close>

theorem Ensure_apply_or_update:
  "(\<forall>e. fst (client_Get (r_client r) (Name (r_ClusterRole r)) (server w)) = Inl e
         \<and> k8serrors_IsNotFound (Some e) \<longrightarrow>
       ClusterRole_Ensure RunClaims Encode r claims w =
         (let w1 = \<lparr>server = snd (client_Get (r_client r) (Name (r_ClusterRole r)) (server w)),
                    calls = calls w @ [GetCall (Name (r_ClusterRole r))]\<rparr>;
              out = ClusterRole_Apply Encode r w1
          in (([Delete_receiver], fst out), snd out)))
   \<and> (\<forall>obj. fst (client_Get (r_client r) (Name (r_ClusterRole r)) (server w)) = Inr obj
         \<and> RunClaims claims obj = (True, None) \<longrightarrow>
       ClusterRole_Ensure RunClaims Encode r claims w =
         (let w1 = \<lparr>server = snd (client_Get (r_client r) (Name (r_ClusterRole r)) (server w)),
                    calls = calls w @ [GetCall (Name (r_ClusterRole r))]\<rparr>;
              out = ClusterRole_Update r w1
          in (([Delete_receiver], fst out), snd out)))
   \<and> calls (snd (snd (ClusterRole_Update r w)))
       = calls w @ [UpdateCall (r_ClusterRole r) JujuFieldManager]
   \<and> (\<forall>e. fst (client_Update (r_client r) (r_ClusterRole r) JujuFieldManager (server w)) = Inl e
         \<and> k8serrors_IsNotFound (Some e) \<longrightarrow>
       fst (ClusterRole_Update r w) = Some (NewNotFound (Some (K8s e)) ''updating cluster role''))
   \<and> run_cleanup Delete_receiver r w = snd (ClusterRole_Delete r w)"
proof (intro conjI allI impI)
  show "run_cleanup Delete_receiver r w = snd (ClusterRole_Delete r w)"
    by (simp add: run_cleanup_def split: prod.split)
qed (simp_all add: ClusterRole_Ensure_absent ClusterRole_Ensure_claimed
       ClusterRole_Update_calls ClusterRole_Update_Inl)

theorem Ensure_apply_or_update_witness:
  "ClusterRole_Ensure first_claim json \<lparr>r_client = absent_client, r_ClusterRole = admin\<rparr>
        [not_ours] world0
     = (([Delete_receiver],
         Some (Annotatef errConflict ''cluster role %q'' [''admin''])),
        \<lparr>r_client = absent_client, r_ClusterRole = admin\<rparr>,
        \<lparr>server = 3,
         calls = [GetCall ''admin'',
                  PatchCall ''admin'' StrategicMergePatchType ''{}'' JujuFieldManager,
                  CreateCall admin JujuFieldManager]\<rparr>)
   \<and> ClusterRole_Ensure first_claim json
        \<lparr>r_client = found_client (admin\<lparr>Labels := Some 5\<rparr>), r_ClusterRole = admin\<rparr>
        [ours] world0
     = (([Delete_receiver], None),
        \<lparr>r_client = found_client (admin\<lparr>Labels := Some 5\<rparr>),
         r_ClusterRole = admin\<lparr>Labels := Some 5\<rparr>\<rparr>,
        \<lparr>server = 2,
         calls = [GetCall ''admin'', UpdateCall admin JujuFieldManager]\<rparr>)
   \<and> fst (ClusterRole_Update \<lparr>r_client = absent_client, r_ClusterRole = admin\<rparr> world0)
     = Some (NewNotFound (Some (K8s not_found)) ''updating cluster role'')
   \<and> calls (snd (snd
        (ClusterRole_Update \<lparr>r_client = absent_client, r_ClusterRole = admin\<rparr> world0)))
     = [UpdateCall admin JujuFieldManager]"
  using Ensure_apply_or_update
          [of "\<lparr>r_client = absent_client, r_ClusterRole = admin\<rparr>" world0
              first_claim json "[not_ours]"]
        Ensure_apply_or_update
          [of "\<lparr>r_client = found_client (admin\<lparr>Labels := Some 5\<rparr>), r_ClusterRole = admin\<rparr>"
              world0 first_claim json "[ours]"]
  by (simp add: found_client_def absent_client_def fixed_client_def first_claim_def ours_def
        world0_def not_found_def conflict_def json_def Let_def admin_def eval_nat_numeral
        ClusterRole_Apply_def ClusterRole_Update_def call_Patch_def call_Create_def
        call_Update_def)

section \<open>Listing\<close>

lemma foldl_append_map:
  "foldl (\<lambda>items item. items @ [f item]) acc xs = acc @ map f xs"
  by (induction xs arbitrary: acc) simp_all

lemma ListDeployments_loop_chained:
  "chained c opts (server w) pages s' \<Longrightarrow>
   \<exists>w1. ListDeployments_loop c namespace opts items w
           = Some ((items @ map (\<lambda>item. \<lparr>d_client = c, d_Deployment = item\<lparr>Namespace := namespace\<rparr>\<rparr>) (concat pages), None), w1)"
proof (induction pages arbitrary: opts w items)
  case Nil
  then show ?case by simp
next
  case (Cons p ps)
  obtain res s1 where list: "client_List c opts (server w) = (res, s1)"
    by (cases "client_List c opts (server w)")
  from Cons.prems list obtain page where page: "res = Inr page" "Items page = p"
    and rest: "if ps = [] then ListMeta_Continue page = '''' \<and> s1 = s'
               else ListMeta_Continue page \<noteq> '''' \<and>
                    chained c (opts\<lparr>Continue := ListMeta_Continue page\<rparr>) s1 ps s'"
    by (cases res) auto
  let ?w1 = "\<lparr>server = s1, calls = calls w @ [ListCall opts]\<rparr>"
  let ?items = "items @ map (\<lambda>item. \<lparr>d_client = c, d_Deployment = item\<lparr>Namespace := namespace\<rparr>\<rparr>) p"
  show ?case
  proof (cases "ps = []")
    case True
    with rest have "ListMeta_Continue page = ''''" by simp
    with list page True show ?thesis
      by (subst ListDeployments_loop.simps)
         (simp add: call_List_def foldl_append_map NewDeployment_eq)
  next
    case False
    with rest have more: "ListMeta_Continue page \<noteq> ''''"
      and tail: "chained c (opts\<lparr>Continue := ListMeta_Continue page\<rparr>) (server ?w1) ps s'"
      by simp_all
    from Cons.IH [OF tail, of ?items] obtain w2 where
      "ListDeployments_loop c namespace (opts\<lparr>Continue := ListMeta_Continue page\<rparr>) ?items ?w1
         = Some ((?items @ map (\<lambda>item. \<lparr>d_client = c, d_Deployment = item\<lparr>Namespace := namespace\<rparr>\<rparr>) (concat ps), None), w2)"
      by blast
    with list page more show ?thesis
      by (subst ListDeployments_loop.simps)
         (simp add: call_List_def foldl_append_map NewDeployment_eq)
  qed
qed

lemma ListDeployments_loop_error:
  "chained_until_error c opts (server w) pages e \<Longrightarrow>
   \<exists>w1. ListDeployments_loop c namespace opts items w = Some (([], Some (Trace (K8s e))), w1)"
proof (induction pages arbitrary: opts w items)
  case Nil
  obtain res s1 where list: "client_List c opts (server w) = (res, s1)"
    by (cases "client_List c opts (server w)")
  with Nil have "res = Inl e" by (cases res) auto
  with list show ?case
    by (subst ListDeployments_loop.simps) (simp add: call_List_def)
next
  case (Cons p ps)
  obtain res s1 where list: "client_List c opts (server w) = (res, s1)"
    by (cases "client_List c opts (server w)")
  let ?w1 = "\<lparr>server = s1, calls = calls w @ [ListCall opts]\<rparr>"
  let ?items = "items @ map (\<lambda>item. \<lparr>d_client = c, d_Deployment = item\<lparr>Namespace := namespace\<rparr>\<rparr>) p"
  from Cons.prems list obtain page where page: "res = Inr page" "Items page = p"
    and more: "ListMeta_Continue page \<noteq> ''''"
    and tail: "chained_until_error c (opts\<lparr>Continue := ListMeta_Continue page\<rparr>) (server ?w1) ps e"
    by (cases res) auto
  from Cons.IH [OF tail, of ?items] obtain w2 where
    "ListDeployments_loop c namespace (opts\<lparr>Continue := ListMeta_Continue page\<rparr>) ?items ?w1 = Some (([], Some (Trace (K8s e))), w2)"
    by blast
  with list page more show ?case
    by (subst ListDeployments_loop.simps)
       (simp add: call_List_def foldl_append_map NewDeployment_eq)
qed

lemma ListDeployments_pages:
  "(chained c opts (server w) pages s' \<longrightarrow>
      map_option fst (ListDeployments c namespace opts w)
        = Some (map (\<lambda>item. \<lparr>d_client = c, d_Deployment = item\<lparr>Namespace := namespace\<rparr>\<rparr>) (concat pages), None))
   \<and> (chained_until_error c opts (server w) pages' e \<longrightarrow>
      map_option fst (ListDeployments c namespace opts w) = Some ([], Some (Trace (K8s e))))"
proof (intro conjI impI)
  assume "chained c opts (server w) pages s'"
  from ListDeployments_loop_chained [OF this, of namespace "[]"]
  show "map_option fst (ListDeployments c namespace opts w)
          = Some (map (\<lambda>item. \<lparr>d_client = c, d_Deployment = item\<lparr>Namespace := namespace\<rparr>\<rparr>) (concat pages), None)"
    by (auto simp: ListDeployments_def)
next
  assume "chained_until_error c opts (server w) pages' e"
  from ListDeployments_loop_error [OF this, of namespace "[]"]
  show "map_option fst (ListDeployments c namespace opts w) = Some ([], Some (Trace (K8s e)))"
    by (auto simp: ListDeployments_def)
qed

lemma ListDaemonSets_loop_chained:
  "chained c opts (server w) pages s' \<Longrightarrow>
   \<exists>w1. ListDaemonSets_loop c namespace opts items w
           = Some ((items @ map (\<lambda>item. \<lparr>ds_client = c, ds_DaemonSet = item\<lparr>Namespace := namespace\<rparr>\<rparr>) (concat pages), None), w1)"
proof (induction pages arbitrary: opts w items)
  case Nil
  then show ?case by simp
next
  case (Cons p ps)
  obtain res s1 where list: "client_List c opts (server w) = (res, s1)"
    by (cases "client_List c opts (server w)")
  from Cons.prems list obtain page where page: "res = Inr page" "Items page = p"
    and rest: "if ps = [] then ListMeta_Continue page = '''' \<and> s1 = s'
               else ListMeta_Continue page \<noteq> '''' \<and>
                    chained c (opts\<lparr>Continue := ListMeta_Continue page\<rparr>) s1 ps s'"
    by (cases res) auto
  let ?w1 = "\<lparr>server = s1, calls = calls w @ [ListCall opts]\<rparr>"
  let ?items = "items @ map (\<lambda>item. \<lparr>ds_client = c, ds_DaemonSet = item\<lparr>Namespace := namespace\<rparr>\<rparr>) p"
  show ?case
  proof (cases "ps = []")
    case True
    with rest have "ListMeta_Continue page = ''''" by simp
    with list page True show ?thesis
      by (subst ListDaemonSets_loop.simps)
         (simp add: call_List_def foldl_append_map NewDaemonSet_eq)
  next
    case False
    with rest have more: "ListMeta_Continue page \<noteq> ''''"
      and tail: "chained c (opts\<lparr>Continue := ListMeta_Continue page\<rparr>) (server ?w1) ps s'"
      by simp_all
    from Cons.IH [OF tail, of ?items] obtain w2 where
      "ListDaemonSets_loop c namespace (opts\<lparr>Continue := ListMeta_Continue page\<rparr>) ?items ?w1
         = Some ((?items @ map (\<lambda>item. \<lparr>ds_client = c, ds_DaemonSet = item\<lparr>Namespace := namespace\<rparr>\<rparr>) (concat ps), None), w2)"
      by blast
    with list page more show ?thesis
      by (subst ListDaemonSets_loop.simps)
         (simp add: call_List_def foldl_append_map NewDaemonSet_eq)
  qed
qed

lemma ListDaemonSets_loop_error:
  "chained_until_error c opts (server w) pages e \<Longrightarrow>
   \<exists>w1. ListDaemonSets_loop c namespace opts items w = Some (([], Some (Trace (K8s e))), w1)"
proof (induction pages arbitrary: opts w items)
  case Nil
  obtain res s1 where list: "client_List c opts (server w) = (res, s1)"
    by (cases "client_List c opts (server w)")
  with Nil have "res = Inl e" by (cases res) auto
  with list show ?case
    by (subst ListDaemonSets_loop.simps) (simp add: call_List_def)
next
  case (Cons p ps)
  obtain res s1 where list: "client_List c opts (server w) = (res, s1)"
    by (cases "client_List c opts (server w)")
  let ?w1 = "\<lparr>server = s1, calls = calls w @ [ListCall opts]\<rparr>"
  let ?items = "items @ map (\<lambda>item. \<lparr>ds_client = c, ds_DaemonSet = item\<lparr>Namespace := namespace\<rparr>\<rparr>) p"
  from Cons.prems list obtain page where page: "res = Inr page" "Items page = p"
    and more: "ListMeta_Continue page \<noteq> ''''"
    and tail: "chained_until_error c (opts\<lparr>Continue := ListMeta_Continue page\<rparr>) (server ?w1) ps e"
    by (cases res) auto
  from Cons.IH [OF tail, of ?items] obtain w2 where
    "ListDaemonSets_loop c namespace (opts\<lparr>Continue := ListMeta_Continue page\<rparr>) ?items ?w1 = Some (([], Some (Trace (K8s e))), w2)"
    by blast
  with list page more show ?case
    by (subst ListDaemonSets_loop.simps)
       (simp add: call_List_def foldl_append_map NewDaemonSet_eq)
qed

lemma ListDaemonSets_pages:
  "(chained c opts (server w) pages s' \<longrightarrow>
      map_option fst (ListDaemonSets c namespace opts w)
        = Some (map (\<lambda>item. \<lparr>ds_client = c, ds_DaemonSet = item\<lparr>Namespace := namespace\<rparr>\<rparr>) (concat pages), None))
   \<and> (chained_until_error c opts (server w) pages' e \<longrightarrow>
      map_option fst (ListDaemonSets c namespace opts w) = Some ([], Some (Trace (K8s e))))"
proof (intro conjI impI)
  assume "chained c opts (server w) pages s'"
  from ListDaemonSets_loop_chained [OF this, of namespace "[]"]
  show "map_option fst (ListDaemonSets c namespace opts w)
          = Some (map (\<lambda>item. \<lparr>ds_client = c, ds_DaemonSet = item\<lparr>Namespace := namespace\<rparr>\<rparr>) (concat pages), None)"
    by (auto simp: ListDaemonSets_def)
next
  assume "chained_until_error c opts (server w) pages' e"
  from ListDaemonSets_loop_error [OF this, of namespace "[]"]
  show "map_option fst (ListDaemonSets c namespace opts w) = Some ([], Some (Trace (K8s e)))"
    by (auto simp: ListDaemonSets_def)
qed

lemma ListClusterRoles_loop_chained:
  "chained c opts (server w) pages s' \<Longrightarrow>
   \<exists>w1. ListClusterRoles_loop c opts items w
           = Some ((items @ map (\<lambda>item. \<lparr>r_client = c, r_ClusterRole = item\<rparr>) (concat pages), None), w1)"
proof (induction pages arbitrary: opts w items)
  case Nil
  then show ?case by simp
next
  case (Cons p ps)
  obtain res s1 where list: "client_List c opts (server w) = (res, s1)"
    by (cases "client_List c opts (server w)")
  from Cons.prems list obtain page where page: "res = Inr page" "Items page = p"
    and rest: "if ps = [] then ListMeta_Continue page = '''' \<and> s1 = s'
               else ListMeta_Continue page \<noteq> '''' \<and>
                    chained c (opts\<lparr>Continue := ListMeta_Continue page\<rparr>) s1 ps s'"
    by (cases res) auto
  let ?w1 = "\<lparr>server = s1, calls = calls w @ [ListCall opts]\<rparr>"
  let ?items = "items @ map (\<lambda>item. \<lparr>r_client = c, r_ClusterRole = item\<rparr>) p"
  show ?case
  proof (cases "ps = []")
    case True
    with rest have "ListMeta_Continue page = ''''" by simp
    with list page True show ?thesis
      by (subst ListClusterRoles_loop.simps)
         (simp add: call_List_def foldl_append_map NewClusterRole_eq)
  next
    case False
    with rest have more: "ListMeta_Continue page \<noteq> ''''"
      and tail: "chained c (opts\<lparr>Continue := ListMeta_Continue page\<rparr>) (server ?w1) ps s'"
      by simp_all
    from Cons.IH [OF tail, of ?items] obtain w2 where
      "ListClusterRoles_loop c (opts\<lparr>Continue := ListMeta_Continue page\<rparr>) ?items ?w1
         = Some ((?items @ map (\<lambda>item. \<lparr>r_client = c, r_ClusterRole = item\<rparr>) (concat ps), None), w2)"
      by blast
    with list page more show ?thesis
      by (subst ListClusterRoles_loop.simps)
         (simp add: call_List_def foldl_append_map NewClusterRole_eq)
  qed
qed

lemma ListClusterRoles_loop_error:
  "chained_until_error c opts (server w) pages e \<Longrightarrow>
   \<exists>w1. ListClusterRoles_loop c opts items w = Some (([], Some (Trace (K8s e))), w1)"
proof (induction pages arbitrary: opts w items)
  case Nil
  obtain res s1 where list: "client_List c opts (server w) = (res, s1)"
    by (cases "client_List c opts (server w)")
  with Nil have "res = Inl e" by (cases res) auto
  with list show ?case
    by (subst ListClusterRoles_loop.simps) (simp add: call_List_def)
next
  case (Cons p ps)
  obtain res s1 where list: "client_List c opts (server w) = (res, s1)"
    by (cases "client_List c opts (server w)")
  let ?w1 = "\<lparr>server = s1, calls = calls w @ [ListCall opts]\<rparr>"
  let ?items = "items @ map (\<lambda>item. \<lparr>r_client = c, r_ClusterRole = item\<rparr>) p"
  from Cons.prems list obtain page where page: "res = Inr page" "Items page = p"
    and more: "ListMeta_Continue page \<noteq> ''''"
    and tail: "chained_until_error c (opts\<lparr>Continue := ListMeta_Continue page\<rparr>) (server ?w1) ps e"
    by (cases res) auto
  from Cons.IH [OF tail, of ?items] obtain w2 where
    "ListClusterRoles_loop c (opts\<lparr>Continue := ListMeta_Continue page\<rparr>) ?items ?w1 = Some (([], Some (Trace (K8s e))), w2)"
    by blast
  with list page more show ?case
    by (subst ListClusterRoles_loop.simps)
       (simp add: call_List_def foldl_append_map NewClusterRole_eq)
qed

lemma ListClusterRoles_pages:
  "(chained c opts (server w) pages s' \<longrightarrow>
      map_option fst (ListClusterRoles c opts w)
        = Some (map (\<lambda>item. \<lparr>r_client = c, r_ClusterRole = item\<rparr>) (concat pages), None))
   \<and> (chained_until_error c opts (server w) pages' e \<longrightarrow>
      map_option fst (ListClusterRoles c opts w) = Some ([], Some (Trace (K8s e))))"
proof (intro conjI impI)
  assume "chained c opts (server w) pages s'"
  from ListClusterRoles_loop_chained [OF this, of "[]"]
  show "map_option fst (ListClusterRoles c opts w)
          = Some (map (\<lambda>item. \<lparr>r_client = c, r_ClusterRole = item\<rparr>) (concat pages), None)"
    by (auto simp: ListClusterRoles_def)
next
  assume "chained_until_error c opts (server w) pages' e"
  from ListClusterRoles_loop_error [OF this, of "[]"]
  show "map_option fst (ListClusterRoles c opts w) = Some ([], Some (Trace (K8s e)))"
    by (auto simp: ListClusterRoles_def)
qed

text \<open>
  Claim C5. When the server hands out a sequence of pages chained by continuation tokens
  and ended by the empty token, each lister returns: it returns the items of all pages in
  page order, each wrapped as a resource with the client handle it was given, and for
  \<open>ListDeployments\<close> and \<open>ListDaemonSets\<close> with the namespace it was given written
  onto the item (\<open>ListClusterRoles\<close> takes no namespace). When a list call answers with
  an error after any number of pages, the lister returns that error, traced, and no items.
\<close>

theorem Listers_follow_continuation:
  "((chained c opts (server w) pages s \<longrightarrow>
       map_option fst (ListDeployments c namespace opts w)
         = Some (map (\<lambda>item. \<lparr>d_client = c, d_Deployment = item\<lparr>Namespace := namespace\<rparr>\<rparr>) (concat pages), None))
    \<and> (chained_until_error c opts (server w) pages' e \<longrightarrow>
       map_option fst (ListDeployments c namespace opts w) = Some ([], Some (Trace (K8s e)))))
   \<and> ((chained c' opts' (server w') ps s' \<longrightarrow>
       map_option fst (ListDaemonSets c' namespace' opts' w')
         = Some (map (\<lambda>item. \<lparr>ds_client = c', ds_DaemonSet = item\<lparr>Namespace := namespace'\<rparr>\<rparr>) (concat ps), None))
    \<and> (chained_until_error c' opts' (server w') ps' e' \<longrightarrow>
       map_option fst (ListDaemonSets c' namespace' opts' w') = Some ([], Some (Trace (K8s e')))))
   \<and> ((chained c'' opts'' (server w'') qs s'' \<longrightarrow>
       map_option fst (ListClusterRoles c'' opts'' w'')
         = Some (map (\<lambda>item. \<lparr>r_client = c'', r_ClusterRole = item\<rparr>) (concat qs), None))
    \<and> (chained_until_error c'' opts'' (server w'') qs' e'' \<longrightarrow>
       map_option fst (ListClusterRoles c'' opts'' w'') = Some ([], Some (Trace (K8s e'')))))"
  by (rule conjI, rule ListDeployments_pages,
      rule conjI, rule ListDaemonSets_pages, rule ListClusterRoles_pages)

theorem Listers_follow_continuation_witness:
  "chained
     (paging_client
        [('''', [web, web\<lparr>Name := ''api''\<rparr>], ''p2''),
         (''p2'', [web\<lparr>Name := ''db''\<rparr>, web\<lparr>Name := ''cache''\<rparr>], ''p3''),
         (''p3'', [web\<lparr>Name := ''cron'', Namespace := ''batch''\<rparr>], '''')])
     list_all (0::nat)
     [[web, web\<lparr>Name := ''api''\<rparr>],
      [web\<lparr>Name := ''db''\<rparr>, web\<lparr>Name := ''cache''\<rparr>],
      [web\<lparr>Name := ''cron'', Namespace := ''batch''\<rparr>]] 3
   \<and> map_option (map d_Deployment \<circ> fst \<circ> fst)
       (ListDeployments
          (paging_client
             [('''', [web, web\<lparr>Name := ''api''\<rparr>], ''p2''),
              (''p2'', [web\<lparr>Name := ''db''\<rparr>, web\<lparr>Name := ''cache''\<rparr>], ''p3''),
              (''p3'', [web\<lparr>Name := ''cron'', Namespace := ''batch''\<rparr>], '''')])
          ''prod'' list_all world0)
     = Some [web, web\<lparr>Name := ''api''\<rparr>, web\<lparr>Name := ''db''\<rparr>, web\<lparr>Name := ''cache''\<rparr>,
             web\<lparr>Name := ''cron''\<rparr>]
   \<and> chained_until_error (paging_client [('''', [agent], ''p2'')]) list_all (0::nat)
       [[agent]] unavailable
   \<and> map_option fst
       (ListDaemonSets (paging_client [('''', [agent], ''p2'')]) ''prod'' list_all world0)
     = Some ([], Some (Trace (K8s unavailable)))
   \<and> chained (paging_client [('''', [admin], '''')]) list_all (0::nat) [[admin]] 1
   \<and> map_option (map r_ClusterRole \<circ> fst \<circ> fst)
       (ListClusterRoles (paging_client [('''', [admin], '''')]) list_all world0)
     = Some [admin]"
proof -
  let ?table = "[('''', [web, web\<lparr>Name := ''api''\<rparr>], ''p2''),
                 (''p2'', [web\<lparr>Name := ''db''\<rparr>, web\<lparr>Name := ''cache''\<rparr>], ''p3''),
                 (''p3'', [web\<lparr>Name := ''cron'', Namespace := ''batch''\<rparr>], '''')]"
  let ?pages = "[[web, web\<lparr>Name := ''api''\<rparr>],
                 [web\<lparr>Name := ''db''\<rparr>, web\<lparr>Name := ''cache''\<rparr>],
                 [web\<lparr>Name := ''cron'', Namespace := ''batch''\<rparr>]]"
  have d: "chained (paging_client ?table) list_all (server (world0 :: (appsv1_Deployment, nat) world))
             ?pages 3"
    by (simp add: paging_client_def fixed_client_def paged_def list_all_def world0_def)
  have ds: "chained_until_error (paging_client [('''', [agent], ''p2'')]) list_all
              (server (world0 :: (appsv1_DaemonSet, nat) world)) [[agent]] unavailable"
    by (simp add: paging_client_def fixed_client_def paged_def list_all_def world0_def)
  have r: "chained (paging_client [('''', [admin], '''')]) list_all
             (server (world0 :: (rbacv1_ClusterRole, nat) world)) [[admin]] 1"
    by (simp add: paging_client_def fixed_client_def paged_def list_all_def world0_def)
  from d ds r
       Listers_follow_continuation
         [of "paging_client ?table" list_all world0 ?pages 3 "''prod''" "[]" unavailable
             "paging_client [('''', [agent], ''p2'')]" list_all world0 "[]" 0 "''prod''"
             "[[agent]]" unavailable
             "paging_client [('''', [admin], '''')]" list_all world0 "[[admin]]" 1 "[]"
             unavailable]
  show ?thesis
    by (auto simp: world0_def web_def)
qed

section \<open>Clone\<close>

lemma method_at_other_pointer:
  assumes "p < length h"
  shows "\<exists>err hp w1.
           method_at m (length h) (h @ [v]) w = Some (err, hp, w1) \<and> hp ! p = h ! p"
proof -
  obtain err r' w1 where run: "m v w = (err, r', w1)"
    by (cases "m v w")
  then have "method_at m (length h) (h @ [v]) w = Some (err, (h @ [v])[length h := r'], w1)"
    by (simp add: method_at_def)
  moreover from assms have "((h @ [v])[length h := r']) ! p = h ! p"
    by (simp add: nth_append)
  ultimately show ?thesis by blast
qed

lemma Deployment_Clone_copies_struct:
  "(p < length h \<longrightarrow>
      Clone_at Deployment_Clone p h = Some (length h, h @ [h ! p])
      \<and> length h \<noteq> p
      \<and> (h @ [h ! p]) ! p = h ! p
      \<and> d_client ((h @ [h ! p]) ! length h) = d_client (h ! p)
      \<and> d_Deployment ((h @ [h ! p]) ! length h) = d_Deployment (h ! p)
      \<and> Labels (d_Deployment ((h @ [h ! p]) ! length h)) = Labels (d_Deployment (h ! p))
      \<and> (\<exists>err hp w1.
            method_at m (length h) (h @ [h ! p]) w = Some (err, hp, w1)
            \<and> hp ! p = h ! p))"
proof (intro impI conjI)
  assume live: "p < length h"
  show "Clone_at Deployment_Clone p h = Some (length h, h @ [h ! p])"
    using live by (simp add: Clone_at_def alloc_def Deployment_Clone_def)
  show "length h \<noteq> p"
    using live by simp
  show "(h @ [h ! p]) ! p = h ! p"
    using live by (simp add: nth_append)
  show "\<exists>err hp w1.
          method_at m (length h) (h @ [h ! p]) w = Some (err, hp, w1)
          \<and> hp ! p = h ! p"
    using live by (rule method_at_other_pointer)
qed simp_all

lemma DaemonSet_Clone_copies_struct:
  "(p' < length h' \<longrightarrow>
      Clone_at DaemonSet_Clone p' h' = Some (length h', h' @ [h' ! p'])
      \<and> length h' \<noteq> p'
      \<and> (h' @ [h' ! p']) ! p' = h' ! p'
      \<and> ds_client ((h' @ [h' ! p']) ! length h') = ds_client (h' ! p')
      \<and> ds_DaemonSet ((h' @ [h' ! p']) ! length h') = ds_DaemonSet (h' ! p')
      \<and> Labels (ds_DaemonSet ((h' @ [h' ! p']) ! length h')) = Labels (ds_DaemonSet (h' ! p'))
      \<and> (\<exists>err hp w1.
            method_at m' (length h') (h' @ [h' ! p']) w' = Some (err, hp, w1)
            \<and> hp ! p' = h' ! p'))"
proof (intro impI conjI)
  assume live: "p' < length h'"
  show "Clone_at DaemonSet_Clone p' h' = Some (length h', h' @ [h' ! p'])"
    using live by (simp add: Clone_at_def alloc_def DaemonSet_Clone_def)
  show "length h' \<noteq> p'"
    using live by simp
  show "(h' @ [h' ! p']) ! p' = h' ! p'"
    using live by (simp add: nth_append)
  show "\<exists>err hp w1.
          method_at m' (length h') (h' @ [h' ! p']) w' = Some (err, hp, w1)
          \<and> hp ! p' = h' ! p'"
    using live by (rule method_at_other_pointer)
qed simp_all

lemma ClusterRole_Clone_copies_struct:
  "(p'' < length h'' \<longrightarrow>
      Clone_at ClusterRole_Clone p'' h'' = Some (length h'', h'' @ [h'' ! p''])
      \<and> length h'' \<noteq> p''
      \<and> (h'' @ [h'' ! p'']) ! p'' = h'' ! p''
      \<and> r_client ((h'' @ [h'' ! p'']) ! length h'') = r_client (h'' ! p'')
      \<and> r_ClusterRole ((h'' @ [h'' ! p'']) ! length h'') = r_ClusterRole (h'' ! p'')
      \<and> Labels (r_ClusterRole ((h'' @ [h'' ! p'']) ! length h'')) = Labels (r_ClusterRole (h'' ! p''))
      \<and> (\<exists>err hp w1.
            method_at m'' (length h'') (h'' @ [h'' ! p'']) w'' = Some (err, hp, w1)
            \<and> hp ! p'' = h'' ! p''))"
proof (intro impI conjI)
  assume live: "p'' < length h''"
  show "Clone_at ClusterRole_Clone p'' h'' = Some (length h'', h'' @ [h'' ! p''])"
    using live by (simp add: Clone_at_def alloc_def ClusterRole_Clone_def)
  show "length h'' \<noteq> p''"
    using live by simp
  show "(h'' @ [h'' ! p'']) ! p'' = h'' ! p''"
    using live by (simp add: nth_append)
  show "\<exists>err hp w1.
          method_at m'' (length h'') (h'' @ [h'' ! p'']) w'' = Some (err, hp, w1)
          \<and> hp ! p'' = h'' ! p''"
    using live by (rule method_at_other_pointer)
qed simp_all

text \<open>
  Claim C8, as the code has it. \<open>Clone\<close> called through a live pointer makes a new
  struct at a new address, the original struct staying as it was. The copy is field by
  field: the same client handle and an equal body, so a reference held in the body (the
  label map) is the same reference in the clone, not a copy of the table. A method called
  on the clone (\<open>Get\<close>, \<open>Apply\<close>, \<open>Update\<close>, \<open>Delete\<close>, any \<open>m\<close>) writes the clone's
  struct only and leaves the original struct untouched.
\<close>

theorem Clone_is_a_struct_copy:
  "((p < length h \<longrightarrow>
       Clone_at Deployment_Clone p h = Some (length h, h @ [h ! p])
       \<and> length h \<noteq> p
       \<and> (h @ [h ! p]) ! p = h ! p
       \<and> d_client ((h @ [h ! p]) ! length h) = d_client (h ! p)
       \<and> d_Deployment ((h @ [h ! p]) ! length h) = d_Deployment (h ! p)
       \<and> Labels (d_Deployment ((h @ [h ! p]) ! length h)) = Labels (d_Deployment (h ! p))
       \<and> (\<exists>err hp w1.
             method_at m (length h) (h @ [h ! p]) w = Some (err, hp, w1)
             \<and> hp ! p = h ! p)))
   \<and> ((p' < length h' \<longrightarrow>
       Clone_at DaemonSet_Clone p' h' = Some (length h', h' @ [h' ! p'])
       \<and> length h' \<noteq> p'
       \<and> (h' @ [h' ! p']) ! p' = h' ! p'
       \<and> ds_client ((h' @ [h' ! p']) ! length h') = ds_client (h' ! p')
       \<and> ds_DaemonSet ((h' @ [h' ! p']) ! length h') = ds_DaemonSet (h' ! p')
       \<and> Labels (ds_DaemonSet ((h' @ [h' ! p']) ! length h')) = Labels (ds_DaemonSet (h' ! p'))
       \<and> (\<exists>err hp w1.
             method_at m' (length h') (h' @ [h' ! p']) w' = Some (err, hp, w1)
             \<and> hp ! p' = h' ! p')))
   \<and> ((p'' < length h'' \<longrightarrow>
       Clone_at ClusterRole_Clone p'' h'' = Some (length h'', h'' @ [h'' ! p''])
       \<and> length h'' \<noteq> p''
       \<and> (h'' @ [h'' ! p'']) ! p'' = h'' ! p''
       \<and> r_client ((h'' @ [h'' ! p'']) ! length h'') = r_client (h'' ! p'')
       \<and> r_ClusterRole ((h'' @ [h'' ! p'']) ! length h'') = r_ClusterRole (h'' ! p'')
       \<and> Labels (r_ClusterRole ((h'' @ [h'' ! p'']) ! length h'')) = Labels (r_ClusterRole (h'' ! p''))
       \<and> (\<exists>err hp w1.
             method_at m'' (length h'') (h'' @ [h'' ! p'']) w'' = Some (err, hp, w1)
             \<and> hp ! p'' = h'' ! p'')))"
  by (rule conjI, rule Deployment_Clone_copies_struct,
      rule conjI, rule DaemonSet_Clone_copies_struct, rule ClusterRole_Clone_copies_struct)

theorem Clone_is_a_struct_copy_witness:
  "(0::nat) < length [web_resource]
   \<and> Clone_at Deployment_Clone 0 [web_resource] = Some (1, [web_resource, web_resource])
   \<and> (\<exists>err hp w1.
         method_at Deployment_Get 1 [web_resource, web_resource] world0 = Some (err, hp, w1)
         \<and> hp ! 0 = web_resource)
   \<and> Clone_at DaemonSet_Clone 0 [\<lparr>ds_client = absent_client, ds_DaemonSet = agent\<rparr>]
       = Some (1, [\<lparr>ds_client = absent_client, ds_DaemonSet = agent\<rparr>,
                   \<lparr>ds_client = absent_client, ds_DaemonSet = agent\<rparr>])
   \<and> Clone_at ClusterRole_Clone 0 [\<lparr>r_client = found_client admin, r_ClusterRole = admin\<rparr>]
       = Some (1, [\<lparr>r_client = found_client admin, r_ClusterRole = admin\<rparr>,
                   \<lparr>r_client = found_client admin, r_ClusterRole = admin\<rparr>])"
  using Clone_is_a_struct_copy
          [of 0 "[web_resource]" Deployment_Get world0
              0 "[\<lparr>ds_client = absent_client, ds_DaemonSet = agent\<rparr>]" DaemonSet_Get world0
              0 "[\<lparr>r_client = found_client admin, r_ClusterRole = admin\<rparr>]"
              ClusterRole_Get world0]
  by simp

text \<open>
  Claim C8 as written fails: the copy is not deep. The clone's body holds the original's
  label map, and \<open>clone.Labels["owner"] = "other"\<close> is read back through the original.
\<close>

theorem Clone_shares_label_map_counterexample:
  "Clone_at Deployment_Clone 0 [web_resource] = Some (1, [web_resource, web_resource])
   \<and> Labels (d_Deployment ([web_resource, web_resource] ! 1)) = Some 0
   \<and> Labels (d_Deployment ([web_resource, web_resource] ! 0)) = Some 0
   \<and> go_map_index (Labels (d_Deployment ([web_resource, web_resource] ! 0))) ''owner'' no_labels
       = None
   \<and> map_option (go_map_index (Labels (d_Deployment ([web_resource, web_resource] ! 0))) ''owner'')
        (go_map_assign (Labels (d_Deployment ([web_resource, web_resource] ! 1)))
           ''owner'' ''other'' no_labels)
       = Some (Some ''other'')"
  by (simp add: Clone_at_def alloc_def Deployment_Clone_def web_resource_def web_def
        go_map_index_def go_map_assign_def no_labels_def)

end
